theory Spec2Isabelle
  imports Main "HOL-Library.Sublist"
begin

section \<open>Exit codes\<close>

text \<open>
  The two constant blocks of the installer. In Go the shift binds tighter than the
  addition, so \<^verbatim>\<open>1<<5 + iota\<close> is \<open>2 ^ 5 + iota\<close>; \<open>iota\<close> counts the lines of the block
  from 0. \<open>Success\<close> is given explicitly.
\<close>

definition SuccessBase :: int where "SuccessBase = 2 ^ 5 + 0"
definition SuccessUserAbort :: int where "SuccessUserAbort = 2 ^ 5 + 1"
definition SuccessBootloaderUnlocked :: int where "SuccessBootloaderUnlocked = 2 ^ 5 + 2"
definition Success :: int where "Success = 0"

definition ErrorBase :: int where "ErrorBase = 2 ^ 6 + 0"
definition ErrorPrereqs :: int where "ErrorPrereqs = 2 ^ 6 + 1"
definition ErrorUserInput :: int where "ErrorUserInput = 2 ^ 6 + 2"
definition ErrorUsbPerms :: int where "ErrorUsbPerms = 2 ^ 6 + 3"
definition ErrorAdb :: int where "ErrorAdb = 2 ^ 6 + 4"
definition ErrorFastboot :: int where "ErrorFastboot = 2 ^ 6 + 5"
definition ErrorRemote :: int where "ErrorRemote = 2 ^ 6 + 6"
definition ErrorTWRP :: int where "ErrorTWRP = 2 ^ 6 + 7"

text \<open>The codes the specification documents: 0, the success band and the error band.\<close>

definition documented_codes :: "int set" where
  "documented_codes =
     {Success, SuccessUserAbort, SuccessBootloaderUnlocked,
      ErrorPrereqs, ErrorUserInput, ErrorUsbPerms, ErrorAdb, ErrorFastboot,
      ErrorRemote, ErrorTWRP}"

section \<open>Data of the collaborating packages\<close>

text \<open>
  Modelled from the spec: the status type of package \<^verbatim>\<open>android\<close>, whose declaration is
  not among the sources. The specification lists the values of a probe as
  Unknown, NoDevice, AdbUnauthorized, AdbReady, FastbootReady and UsbPermissionDenied.
  The installer compares a status with \<^verbatim>\<open>android.NoDeviceFound\<close>,
  \<^verbatim>\<open>android.DeviceUnauthorized\<close> and \<^verbatim>\<open>android.NoUsbPerms\<close> only; these are the
  specification's NoDevice, AdbUnauthorized and UsbPermissionDenied.
\<close>

datatype DeviceMode =
  Unknown | NoDevice | AdbUnauthorized | AdbReady | FastbootReady | UsbPermissionDenied

abbreviation NoDeviceFound :: DeviceMode where "NoDeviceFound \<equiv> NoDevice"
abbreviation DeviceUnauthorized :: DeviceMode where "DeviceUnauthorized \<equiv> AdbUnauthorized"
abbreviation NoUsbPerms :: DeviceMode where "NoUsbPerms \<equiv> UsbPermissionDenied"

text \<open>
  A download request of the download package: the file name it will write, the headers of
  its HTTP request, and whether a progress handler has been installed.
\<close>

record DownloadRequest =
  Filename :: string
  Header :: "(string \<times> string) list"
  ProgressHandler :: bool

section \<open>Effects and outcomes\<close>

text \<open>
  Every call that leaves the installer's own code, and every write to the package-level
  progress bar, is an event; a run is the list of its events in program order. The text
  that \<^verbatim>\<open>fmt.Printf\<close> renders is not computed: the event keeps the format and the
  arguments.
\<close>

datatype event =
    FlagParse
  | Printf string "string list"
  | Print string
  | ReadLine
  | Sleep nat
  | Executable
  | Getenv string
  | Setenv string string
  | Chdir string
  | AdbStatus
  | AdbReboot string
  | AdbSideload string
  | AdbPushFg string string
  | AdbShell string
  | FastbootStatus
  | FastbootGetProduct
  | FastbootUnlocked
  | FastbootUnlock
  | FastbootReboot
  | FastbootBoot string
  | RequestNethunter
  | RequestOxygenRecovery
  | RequestFactory
  | NewDownloadRequest string
  | Stat string
  | SetTitle string
  | Download DownloadRequest

text \<open>
  The process ends in one of three ways: through \<^verbatim>\<open>os.Exit(code)\<close> at line 114, in
  \<^verbatim>\<open>exit\<close>, the only call of \<^verbatim>\<open>os.Exit\<close> among the installer's own lines; through the
  \<^verbatim>\<open>os.Exit\<close> that the flag package calls itself inside \<^verbatim>\<open>flag.Parse\<close>, with the status
  of its choice; or through a panic, which the Go runtime turns into exit status 2 after
  printing the panic value.
\<close>

datatype outcome = Exited int | FlagExited int | Panicked string

text \<open>
  A piece of the program yields the events it performed and either the outcome that ended
  the process (\<open>Inl\<close>) or its value (\<open>Inr\<close>), with which the program goes on.
\<close>

type_synonym 'a run = "event list \<times> (outcome + 'a)"

definition ret :: "'a \<Rightarrow> 'a run" where
  "ret x = ([], Inr x)"

definition emit :: "event \<Rightarrow> unit run" where
  "emit e = ([e], Inr ())"

definition and_then :: "'a run \<Rightarrow> ('a \<Rightarrow> 'b run) \<Rightarrow> 'b run" where
  "and_then m f =
     (case snd m of
        Inl out \<Rightarrow> (fst m, Inl out)
      | Inr x \<Rightarrow> (fst m @ fst (f x), snd (f x)))"

definition seq :: "unit run \<Rightarrow> 'b run \<Rightarrow> 'b run" where
  "seq m n = and_then m (\<lambda>_. n)"

text \<open>A run after the events \<open>es\<close>.\<close>

definition prepend :: "event list \<Rightarrow> 'a run \<Rightarrow> 'a run" where
  "prepend es r = (es @ fst r, snd r)"

definition events :: "'a run \<Rightarrow> event list" where
  "events r = fst r"

definition result :: "'a run \<Rightarrow> outcome + 'a" where
  "result r = snd r"

section \<open>The environment of a run\<close>

text \<open>
  Every call site of \<^verbatim>\<open>main\<close> is executed at most once, so the environment is one answer
  per call site, named by the line of the call. An error is the text of \<^verbatim>\<open>err.Error()\<close>.
  A call whose value the installer reads even when the error is set answers with a pair;
  the others answer with \<open>Inl\<close> the error or \<open>Inr\<close> the value, or with the optional error.

  \<^verbatim>\<open>flag.Parse\<close> (line 132) reads the command line with the error handling
  \<^verbatim>\<open>flag.ExitOnError\<close>: it either returns, and then the flag \<^verbatim>\<open>-version\<close> has a value
  (\<open>Inr\<close>), or it ends the process itself with a status of its own (\<open>Inl\<close>): 2 for a
  command line that it cannot parse, such as one with a flag that is not defined, and 0
  for \<^verbatim>\<open>-h\<close> and \<^verbatim>\<open>-help\<close> (2 in old releases of Go).

  \<open>files\<close> is the working directory when the run starts: the set of the paths for which
  \<^verbatim>\<open>os.Stat\<close> does not report a not-exist error.

  The message constants and \<^verbatim>\<open>Version\<close> are declared in files that are not among the
  sources, and \<^verbatim>\<open>path.Dir\<close> belongs to the standard library; they are parameters.
\<close>

record world =
  Version :: string
  MsgWelcome :: string
  MsgAdbIssue :: string
  MsgFixPerms :: string
  MsgFastbootNoDeviceFound :: string
  MsgIncompleteZip :: string
  MsgUnlockSuccess :: string
  MsgSuccess :: string
  GOOS :: string
  GOARCH :: string
  path_Dir :: "string \<Rightarrow> string"
  Parse_132 :: "int + bool"
  Executable_138 :: "string + string"
  Getenv_PATH :: string
  Setenv_144 :: "string option"
  Chdir_152 :: "string option"
  ReadLine_159 :: "string + string"
  adb_Status_174 :: "DeviceMode \<times> string option"
  fastboot_Status_181 :: "DeviceMode \<times> string option"
  fastboot_Status_188 :: "DeviceMode \<times> string option"
  adb_Status_67 :: "DeviceMode \<times> string option"
  adb_Reboot_195 :: "string option"
  fastboot_Status_203 :: "DeviceMode \<times> string option"
  fastboot_Status_82 :: "DeviceMode \<times> string option"
  GetProduct_214 :: "string + string"
  Unlocked_227 :: "bool \<times> string option"
  Unlock_233 :: "string option"
  RequestNethunter_245 :: "string + DownloadRequest"
  files :: "string set"
  Download_261 :: "string + string"
  NewDownloadRequest_36 :: "string \<Rightarrow> string + DownloadRequest"
  Download_286 :: "string + string"
  RequestOxygenRecovery_295 :: "string + DownloadRequest"
  Download_311 :: "string + string"
  RequestFactory_321 :: "string + DownloadRequest"
  Download_337 :: "string + string"
  Boot_347 :: "string option"
  ReadLine_355 :: "string + string"
  Sideload_361 :: "string option"
  ReadLine_369 :: "string + string"
  Boot_376 :: "string option"
  PushFg_385 :: "string option"
  Shell_391 :: "string option"
  Shell_401 :: "string option"
  Shell_407 :: "string option"
  Shell_413 :: "string option"
  adb_Reboot_421 :: "string option"

section \<open>The helpers of the installer\<close>

definition iEcho :: "string \<Rightarrow> string list \<Rightarrow> unit run" where
  "iEcho format a = emit (Printf (format @ ''\<newline>'') a)"

definition eEcho :: "string \<Rightarrow> unit run" where
  "eEcho msg = iEcho msg []"

text \<open>
  \<^verbatim>\<open>exit\<close>: on Windows the prompt and one line read from standard input, whose result is
  dropped, come before \<^verbatim>\<open>os.Exit\<close>.
\<close>

definition exit :: "world \<Rightarrow> int \<Rightarrow> 'a run" where
  "exit w code =
     and_then
       (if GOOS w = ''windows''
        then seq (emit (Print ''\<newline>Press [Enter] to exit...'')) (emit ReadLine)
        else ret ())
       (\<lambda>_. ([], Inl (Exited code)))"

definition verifyAdbStatusOrAbort :: "world \<Rightarrow> unit run" where
  "verifyAdbStatusOrAbort w =
     seq (emit AdbStatus)
       (case adb_Status_67 w of (status, err) \<Rightarrow>
          seq (case err of
                 Some e \<Rightarrow> seq (eEcho (''Failed to get adb status: '' @ e)) (exit w ErrorAdb)
               | None \<Rightarrow> ret ())
            (if status = NoDeviceFound \<or> status = DeviceUnauthorized
             then seq (eEcho (MsgAdbIssue w)) (exit w ErrorAdb)
             else if status = NoUsbPerms
             then seq (eEcho (MsgFixPerms w)) (exit w ErrorUsbPerms)
             else ret ()))"

definition verifyFastbootStatusOrAbort :: "world \<Rightarrow> unit run" where
  "verifyFastbootStatusOrAbort w =
     seq (emit FastbootStatus)
       (case fastboot_Status_82 w of (status, err) \<Rightarrow>
          seq (case err of
                 Some e \<Rightarrow>
                   seq (eEcho (''Failed to get fastboot status: '' @ e)) (exit w ErrorFastboot)
               | None \<Rightarrow> ret ())
            (if status = NoDeviceFound
             then seq (eEcho (MsgFastbootNoDeviceFound w)) (exit w ErrorFastboot)
             else if status = NoUsbPerms
             then seq (eEcho (MsgFixPerms w)) (exit w ErrorUsbPerms)
             else ret ()))"

section \<open>The TWRP release client\<close>

definition TWRPEndpoint :: string where "TWRPEndpoint = ''https://dl.twrp.me''"
definition TWRPVersionPrefix :: string where "TWRPVersionPrefix = ''twrp-3.1.1-1-''"
definition TWRPExtension :: string where "TWRPExtension = ''.img''"

definition genTWRPDeviceUrl :: "string \<Rightarrow> string" where
  "genTWRPDeviceUrl device =
     TWRPEndpoint @ ''/'' @ device @ ''/'' @ TWRPVersionPrefix @ device @ TWRPExtension"

definition RequestTWRP :: "world \<Rightarrow> string \<Rightarrow> (string + DownloadRequest) run" where
  "RequestTWRP w device =
     (let url = genTWRPDeviceUrl device in
      seq (emit (NewDownloadRequest url))
        (case NewDownloadRequest_36 w url of
           Inl err \<Rightarrow> ret (Inl err)
         | Inr req \<Rightarrow> ret (Inr (req\<lparr>Header := Header req @ [(''Referer'', url)]\<rparr>))))"

section \<open>The installer: \<^verbatim>\<open>main\<close>, piece by piece\<close>

text \<open>
  \<^verbatim>\<open>main\<close> is one straight-line function. It is cut here at the comments and blank lines of
  the source into pieces named after the phase of the specification they implement; every
  piece keeps the statements, their order and the texts of the source. \<^verbatim>\<open>main_from_X\<close> is
  the program from piece \<open>X\<close> to the end.

  Lines 131 to 136: the command line. \<^verbatim>\<open>flag.Parse\<close> may end the process itself, without
  \<^verbatim>\<open>exit\<close>; when it returns, \<^verbatim>\<open>*versionFlag\<close> is the value of the flag \<^verbatim>\<open>-version\<close>.
\<close>

definition main_flags :: "world \<Rightarrow> unit run" where
  "main_flags w =
     seq (emit FlagParse)
       (case Parse_132 w of
          Inl status \<Rightarrow> ([], Inl (FlagExited status))
        | Inr versionFlag \<Rightarrow>
            if versionFlag = True
            then seq (iEcho ''Nethunter installer version %s %s/%s''
                        [Version w, GOOS w, GOARCH w])
                   (exit w Success)
            else ret ())"

text \<open>Lines 138 to 154: the path of the executable, \<^verbatim>\<open>PATH\<close> and the working directory.\<close>

definition main_setup :: "world \<Rightarrow> unit run" where
  "main_setup w =
     seq (emit Executable)
       (case Executable_138 w of
          Inl err \<Rightarrow> ([], Inl (Panicked err))
        | Inr myPath \<Rightarrow>
            seq (emit (Getenv ''PATH''))
           (seq (emit (Setenv ''PATH'' (path_Dir w myPath @ '':'' @ Getenv_PATH w)))
           (seq (case Setenv_144 w of
                   Some e \<Rightarrow>
                     seq (eEcho (''Failed to set PATH to include installer tools: '' @ e))
                       (exit w ErrorPrereqs)
                 | None \<Rightarrow> ret ())
           (seq (emit (Chdir (path_Dir w myPath)))
              (case Chdir_152 w of
                 Some e \<Rightarrow> eEcho ''Warning: failed to change working directory''
               | None \<Rightarrow> ret ())))))"

text \<open>Lines 156 to 169: the operator's consent.\<close>

definition main_consent :: "world \<Rightarrow> unit run" where
  "main_consent w =
     seq (iEcho (MsgWelcome w) [])
    (seq (emit (Print ''Are you ready to install Nethunter? (yes/no): ''))
    (seq (emit ReadLine)
       (case ReadLine_159 w of
          Inl e \<Rightarrow> seq (iEcho ''Failed to read input: '' [e]) (exit w ErrorUserInput)
        | Inr response \<Rightarrow>
            if ''yes'' \<noteq> response
            then seq (iEcho [] [])
                (seq (iEcho ''Aborting installation.'' [])
                   (exit w SuccessUserAbort))
            else ret ())))"

text \<open>
  Lines 171 to 185: both tools must run at all. (The constructors of the two clients call
  nothing and are not events.)
\<close>

definition main_tools :: "world \<Rightarrow> unit run" where
  "main_tools w =
     seq (iEcho [] [])
    (seq (iEcho ''Verifying installer tools...'' [])
    (seq (emit AdbStatus)
    (seq (case snd (adb_Status_174 w) of
            Some e \<Rightarrow>
              seq (eEcho (''Failed to run adb: '' @ e))
             (seq (eEcho (MsgIncompleteZip w))
                (exit w ErrorPrereqs))
          | None \<Rightarrow> ret ())
    (seq (emit FastbootStatus)
       (case snd (fastboot_Status_181 w) of
          Some e \<Rightarrow>
            seq (eEcho (''Failed to run fastboot: '' @ e))
           (seq (eEcho (MsgIncompleteZip w))
              (exit w ErrorPrereqs))
        | None \<Rightarrow> ret ())))))"

text \<open>
  Lines 194 to 206, the body of the branch taken when fastboot sees no device, after the
  adb check: reboot into the bootloader, sleep, ask fastboot again.
\<close>

definition main_reboot :: "world \<Rightarrow> unit run" where
  "main_reboot w =
     seq (iEcho ''Rebooting your device into bootloader...'' [])
    (seq (emit (AdbReboot ''bootloader''))
    (seq (case adb_Reboot_195 w of
            Some e \<Rightarrow>
              seq (eEcho (''Failed to reboot into bootloader: '' @ e)) (exit w ErrorAdb)
          | None \<Rightarrow> ret ())
    (seq (emit (Sleep 7000))
    (seq (emit FastbootStatus)
       (case fastboot_Status_203 w of (status, err) \<Rightarrow>
          if err \<noteq> None \<or> status = NoDeviceFound
          then seq (eEcho ''Failed to reboot device into bootloader!'') (exit w ErrorAdb)
          else ret ())))))"

text \<open>
  Lines 187 to 207: the status that fastboot reports decides; its error is dropped
  (\<^verbatim>\<open>status, _ := fastboot.Status()\<close>).
\<close>

definition main_detect :: "world \<Rightarrow> unit run" where
  "main_detect w =
     seq (iEcho ''Checking USB permissions...'' [])
    (seq (emit FastbootStatus)
       (if fst (fastboot_Status_188 w) = NoDeviceFound
        then seq (verifyAdbStatusOrAbort w) (main_reboot w)
        else ret ()))"

text \<open>
  Lines 213 to 225. The assignment in the branch is \<^verbatim>\<open>product := "cheeseburger"\<close>: a
  declaration of a new variable whose scope is the branch. The \<^verbatim>\<open>product\<close> declared at
  line 214 is the one every later line reads, and it keeps its value.
\<close>

definition main_identify :: "world \<Rightarrow> string run" where
  "main_identify w =
     seq (iEcho ''Identifying your device...'' [])
    (seq (emit FastbootGetProduct)
       (case GetProduct_214 w of
          Inl e \<Rightarrow>
            seq (eEcho (''Failed to get device product info: '' @ e)) (exit w ErrorFastboot)
        | Inr product \<Rightarrow>
            ret (if ''QC_Reference_Phone'' = product
                 then (let product_in_branch = ''cheeseburger'' in product)
                 else product)))"

text \<open>Lines 227 to 241: the lock state, and the unlock that ends the run.\<close>

definition main_unlock :: "world \<Rightarrow> unit run" where
  "main_unlock w =
     seq (emit FastbootUnlocked)
       (case Unlocked_227 w of (unlocked, err) \<Rightarrow>
          seq (case err of
                 Some e \<Rightarrow>
                   iEcho (''Warning: unable to determine bootloader lock state: '' @ e) []
               | None \<Rightarrow> ret ())
            (if \<not> unlocked
             then seq (iEcho
                    ''Unlocking bootloader, you will need to confirm this on your device...'' [])
                 (seq (emit FastbootUnlock)
                 (seq (case Unlock_233 w of
                         Some e \<Rightarrow>
                           seq (eEcho (''Failed to unlock bootloader: '' @ e))
                             (exit w ErrorFastboot)
                       | None \<Rightarrow> ret ())
                 (seq (emit FastbootReboot)
                 (seq (iEcho (MsgUnlockSuccess w) [])
                    (exit w SuccessBootloaderUnlocked)))))
             else ret ()))"

text \<open>
  Lines 244 to 343: the four artifacts. Each block asks for the request, takes the
  request's file name as the path, and downloads when \<^verbatim>\<open>os.Stat\<close> reports that a path does
  not exist; a download replaces the path by the one it returns. The third block passes
  \<^verbatim>\<open>twrp\<close>, the path of the second artifact, to \<^verbatim>\<open>os.Stat\<close> (line 302).

  The working directory is the state of this phase: every block takes the set \<open>fs\<close> of the
  files present when it starts and yields, with its path, the set present when it ends.
  \<^verbatim>\<open>os.Stat\<close> reads the set. \<^verbatim>\<open>Download\<close> belongs to the library \<^verbatim>\<open>toolbox.go\<close>; of what
  it does, the model keeps what the specification says of it (section 6,
  \<^verbatim>\<open>Request.download(progressCallback) -> localPath\<close>): a download that succeeds leaves a
  file at the path it returns. Nothing else changes the working directory while \<^verbatim>\<open>main\<close>
  runs; the specification, in its section 5, has it touched by the installer alone.
  The progress handler that each block installs only renders the progress bar while the
  download runs; the request records that one is installed. (\<^verbatim>\<open>progressCallback\<close>, lines 96
  to 102, is called nowhere.)
\<close>

definition fetch_nethunter ::
  "world \<Rightarrow> string set \<Rightarrow> string \<Rightarrow> (string \<times> string set) run" where
  "fetch_nethunter w fs product =
     seq (iEcho ''Downloading the latest release for your device (%q)...'' [product])
    (seq (emit RequestNethunter)
       (case RequestNethunter_245 w of
          Inl e \<Rightarrow> seq (eEcho (''Failed to download Nethunter: '' @ e)) (exit w ErrorRemote)
        | Inr req \<Rightarrow>
            (let zip = Filename req in
             seq (emit (Stat zip))
               (if zip \<notin> fs
                then seq (emit (SetTitle zip))
                    (seq (emit (Download (req\<lparr>ProgressHandler := True\<rparr>)))
                       (case Download_261 w of
                          Inl e \<Rightarrow>
                            seq (eEcho [])
                           (seq (eEcho (''Failed to download Nethunter: '' @ e))
                              (exit w ErrorRemote))
                        | Inr zip' \<Rightarrow> ret (zip', insert zip' fs)))
                else ret (zip, fs)))))"

definition fetch_twrp ::
  "world \<Rightarrow> string set \<Rightarrow> string \<Rightarrow> (string \<times> string set) run" where
  "fetch_twrp w fs product =
     seq (iEcho ''Downloading TWRP for your device...'' [])
       (and_then (RequestTWRP w product) (\<lambda>r.
          case r of
            Inl e \<Rightarrow> seq (eEcho (''Failed to request TWRP: '' @ e)) (exit w ErrorRemote)
          | Inr req \<Rightarrow>
              (let twrp = Filename req in
               seq (emit (Stat twrp))
                 (if twrp \<notin> fs
                  then seq (emit (SetTitle twrp))
                      (seq (emit (Download (req\<lparr>ProgressHandler := True\<rparr>)))
                         (case Download_286 w of
                            Inl e \<Rightarrow>
                              seq (eEcho [])
                             (seq (eEcho (''Failed to download TWRP: '' @ e))
                                (exit w ErrorRemote))
                          | Inr twrp' \<Rightarrow> ret (twrp', insert twrp' fs)))
                  else ret (twrp, fs)))))"

definition fetch_oxygenrecovery ::
  "world \<Rightarrow> string set \<Rightarrow> string \<Rightarrow> (string \<times> string set) run" where
  "fetch_oxygenrecovery w fs twrp =
     seq (iEcho ''Downloading OnePlus5 OxygenOS recovery for your device...'' [])
    (seq (emit RequestOxygenRecovery)
       (case RequestOxygenRecovery_295 w of
          Inl e \<Rightarrow> seq (eEcho (''Failed to request TWRP: '' @ e)) (exit w ErrorRemote)
        | Inr req \<Rightarrow>
            (let oxygenrecovery = Filename req in
             seq (emit (Stat twrp))
               (if twrp \<notin> fs
                then seq (emit (SetTitle oxygenrecovery))
                    (seq (emit (Download (req\<lparr>ProgressHandler := True\<rparr>)))
                       (case Download_311 w of
                          Inl e \<Rightarrow>
                            seq (eEcho [])
                           (seq (eEcho (''Failed to download Oxygen Recovery: '' @ e))
                              (exit w ErrorRemote))
                        | Inr oxygenrecovery' \<Rightarrow>
                            ret (oxygenrecovery', insert oxygenrecovery' fs)))
                else ret (oxygenrecovery, fs)))))"

definition fetch_factory :: "world \<Rightarrow> string set \<Rightarrow> (string \<times> string set) run" where
  "fetch_factory w fs =
     seq (iEcho ''Downloading OnePlus 5 factory for your device...'' [])
    (seq (emit RequestFactory)
       (case RequestFactory_321 w of
          Inl e \<Rightarrow>
            seq (eEcho (''Failed to request OnePlus 5 Factory image: '' @ e))
              (exit w ErrorRemote)
        | Inr req \<Rightarrow>
            (let factory = Filename req in
             seq (emit (Stat factory))
               (if factory \<notin> fs
                then seq (emit (SetTitle factory))
                    (seq (emit (Download (req\<lparr>ProgressHandler := True\<rparr>)))
                       (case Download_337 w of
                          Inl e \<Rightarrow>
                            seq (eEcho [])
                           (seq (eEcho (''Failed to download factory image: '' @ e))
                              (exit w ErrorRemote))
                        | Inr factory' \<Rightarrow> ret (factory', insert factory' fs)))
                else ret (factory, fs)))))"

text \<open>
  The local paths that the later lines read: the variables \<^verbatim>\<open>zip\<close>, \<^verbatim>\<open>twrp\<close>,
  \<^verbatim>\<open>oxygenrecovery\<close> and \<^verbatim>\<open>factory\<close>.
\<close>

record paths =
  zip :: string
  twrp :: string
  oxygenrecovery :: string
  factory :: string

definition main_fetch :: "world \<Rightarrow> string \<Rightarrow> paths run" where
  "main_fetch w product =
     and_then (fetch_nethunter w (files w) product) (\<lambda>(z, fs1).
     and_then (fetch_twrp w fs1 product) (\<lambda>(t, fs2).
     and_then (fetch_oxygenrecovery w fs2 t) (\<lambda>(r, fs3).
     and_then (fetch_factory w fs3) (\<lambda>(f, fs4).
       ret \<lparr>zip = z, twrp = t, oxygenrecovery = r, factory = f\<rparr>))))"

text \<open>Lines 345 to 365: boot the Oxygen recovery and sideload the factory image.\<close>

definition main_flash_factory :: "world \<Rightarrow> paths \<Rightarrow> unit run" where
  "main_flash_factory w p =
     seq (iEcho ''Temporarily booting Oxygen recovery to flash latest OxygenOS...'' [])
    (seq (emit (FastbootBoot (oxygenrecovery p)))
    (seq (case Boot_347 w of
            Some e \<Rightarrow>
              seq (eEcho (''Failed to boot into Oxygen Recovery: '' @ e)) (exit w ErrorTWRP)
          | None \<Rightarrow> ret ())
    (seq (emit (Print
           (''On OnePlus5, choose Install from USB option in the recovery screen, ''
            @ ''tap OK to confirm. Press enter when in sideload mode'')))
    (seq (emit ReadLine)
    (seq (case ReadLine_355 w of
            Inl e \<Rightarrow> seq (iEcho ''Failed to read input: '' [e]) (exit w ErrorUserInput)
          | Inr responseBytes \<Rightarrow> ret ())
    (seq (emit (AdbSideload (factory p)))
       (case Sideload_361 w of
          Some e \<Rightarrow>
            seq (eEcho (''Failed to flash Factory zip file: '' @ e)) (exit w ErrorTWRP)
        | None \<Rightarrow> ret ())))))))"

text \<open>Lines 367 to 398: back in fastboot, boot TWRP, push and install the update zip.\<close>

definition main_flash_update :: "world \<Rightarrow> paths \<Rightarrow> unit run" where
  "main_flash_update w p =
     seq (emit (Print
           ''Reboot back into fastboot when completed.  Press return when in fastboot mode''))
    (seq (emit ReadLine)
    (seq (case ReadLine_369 w of
            Inl e \<Rightarrow> seq (iEcho ''Failed to read input: '' [e]) (exit w ErrorUserInput)
          | Inr responseBytes \<Rightarrow> ret ())
    (seq (iEcho ''Temporarily booting TWRP to flash Nethunter update zip...'' [])
    (seq (emit (FastbootBoot (twrp p)))
    (seq (case Boot_376 w of
            Some e \<Rightarrow> seq (eEcho (''Failed to boot TWRP: '' @ e)) (exit w ErrorTWRP)
          | None \<Rightarrow> ret ())
    (seq (emit (Sleep 10000))
    (seq (iEcho ''Transferring the Nethunter update zip to your device...'' [])
    (seq (emit (AdbPushFg (zip p) ''/sdcard''))
    (seq (case PushFg_385 w of
            Some e \<Rightarrow>
              seq (eEcho (''Failed to push Nethunter update zip to device: '' @ e))
                (exit w ErrorAdb)
          | None \<Rightarrow> ret ())
    (seq (iEcho ''Installing Nethunter, please keep your device connected...'' [])
    (seq (emit (AdbShell (''twrp install /sdcard/'' @ zip p)))
    (seq (case Shell_391 w of
            Some e \<Rightarrow>
              seq (eEcho (''Failed to flash Nethunter update zip: '' @ e)) (exit w ErrorTWRP)
          | None \<Rightarrow> ret ())
       (emit (Sleep 2000))))))))))))))"

text \<open>Lines 400 to 418: the three wipes.\<close>

definition main_wipe :: "world \<Rightarrow> unit run" where
  "main_wipe w =
     seq (iEcho ''Wiping your device without wiping /data/media...'' [])
    (seq (emit (AdbShell ''twrp wipe cache''))
    (seq (case Shell_401 w of
            Some e \<Rightarrow> seq (eEcho (''Failed to wipe cache: '' @ e)) (exit w ErrorTWRP)
          | None \<Rightarrow> ret ())
    (seq (emit (Sleep 1000))
    (seq (emit (AdbShell ''twrp wipe dalvik''))
    (seq (case Shell_407 w of
            Some e \<Rightarrow> seq (eEcho (''Failed to wipe dalvik: '' @ e)) (exit w ErrorTWRP)
          | None \<Rightarrow> ret ())
    (seq (emit (Sleep 1000))
    (seq (emit (AdbShell ''twrp wipe data''))
    (seq (case Shell_413 w of
            Some e \<Rightarrow> seq (eEcho (''Failed to wipe data: '' @ e)) (exit w ErrorTWRP)
          | None \<Rightarrow> ret ())
       (emit (Sleep 1000))))))))))"

text \<open>Lines 420 to 428: the last reboot and the successful exit.\<close>

definition main_final :: "world \<Rightarrow> unit run" where
  "main_final w =
     seq (iEcho (MsgSuccess w) [])
    (seq (emit (AdbReboot []))
    (seq (case adb_Reboot_421 w of
            Some e \<Rightarrow>
              seq (eEcho (''Failed to reboot: '' @ e))
             (seq (iEcho (''\<newline>Please reboot your device manually by going to ''
                          @ ''Reboot > System > Do Not Install'') [])
                (exit w ErrorAdb))
          | None \<Rightarrow> ret ())
       (exit w Success)))"

text \<open>The program from each piece to its end, and the whole of \<^verbatim>\<open>main\<close>.\<close>

definition main_from_wipe :: "world \<Rightarrow> unit run" where
  "main_from_wipe w = seq (main_wipe w) (main_final w)"

definition main_from_flash :: "world \<Rightarrow> paths \<Rightarrow> unit run" where
  "main_from_flash w p =
     seq (main_flash_factory w p) (seq (main_flash_update w p) (main_from_wipe w))"

definition main_from_fetch :: "world \<Rightarrow> string \<Rightarrow> unit run" where
  "main_from_fetch w product = and_then (main_fetch w product) (main_from_flash w)"

definition main_from_unlock :: "world \<Rightarrow> string \<Rightarrow> unit run" where
  "main_from_unlock w product = seq (main_unlock w) (main_from_fetch w product)"

definition main_from_identify :: "world \<Rightarrow> unit run" where
  "main_from_identify w = and_then (main_identify w) (main_from_unlock w)"

definition main_from_detect :: "world \<Rightarrow> unit run" where
  "main_from_detect w =
     seq (main_detect w) (seq (verifyFastbootStatusOrAbort w) (main_from_identify w))"

definition main :: "world \<Rightarrow> unit run" where
  "main w =
     seq (main_flags w)
    (seq (main_setup w)
    (seq (main_consent w)
    (seq (main_tools w)
       (main_from_detect w))))"

section \<open>Observing a run\<close>

text \<open>
  Console traffic (what is printed, and lines read from standard input) apart, the events
  of a run are what it does to the device, the network, the file system and the clock.
\<close>

fun is_console :: "event \<Rightarrow> bool" where
  "is_console (Printf f a) = True"
| "is_console (Print s) = True"
| "is_console ReadLine = True"
| "is_console e = False"

definition actions :: "event list \<Rightarrow> event list" where
  "actions es = filter (\<lambda>e. \<not> is_console e) es"

text \<open>What \<^verbatim>\<open>exit\<close> puts on the console of a Windows host before the process ends.\<close>

definition exit_prompt :: "event list" where
  "exit_prompt = [Print ''\<newline>Press [Enter] to exit...'', ReadLine]"

text \<open>
  The exit status the operating system sees: the code given to \<^verbatim>\<open>os.Exit\<close>, by \<^verbatim>\<open>exit\<close>
  or by the flag package, or 2, the status with which the Go runtime ends a process that
  panics.
\<close>

fun process_status :: "outcome \<Rightarrow> int" where
  "process_status (Exited code) = code"
| "process_status (FlagExited status) = status"
| "process_status (Panicked v) = 2"

text \<open>
  The four artifacts, named as the source names their requests, and the request that an
  event makes. \<^verbatim>\<open>RequestTWRP\<close> is in the sources: its request is the call of
  \<^verbatim>\<open>net.NewDownloadRequest\<close> in it.
\<close>

datatype artifact = Nethunter | TWRP | OxygenRecovery | Factory

fun requested :: "event \<Rightarrow> artifact option" where
  "requested RequestNethunter = Some Nethunter"
| "requested (NewDownloadRequest url) = Some TWRP"
| "requested RequestOxygenRecovery = Some OxygenRecovery"
| "requested RequestFactory = Some Factory"
| "requested e = None"

definition requests_of :: "event list \<Rightarrow> artifact list" where
  "requests_of es = List.map_filter requested es"

definition fetch_order :: "artifact list" where
  "fetch_order = [Nethunter, TWRP, OxygenRecovery, Factory]"

text \<open>
  The events of the fetch phase (requests, \<^verbatim>\<open>os.Stat\<close>, the title of the progress bar,
  downloads) and of the flash phases (what is sent to the device to boot, sideload, push,
  install and wipe).
\<close>

fun is_fetch :: "event \<Rightarrow> bool" where
  "is_fetch RequestNethunter = True"
| "is_fetch RequestOxygenRecovery = True"
| "is_fetch RequestFactory = True"
| "is_fetch (NewDownloadRequest url) = True"
| "is_fetch (Stat p) = True"
| "is_fetch (SetTitle t) = True"
| "is_fetch (Download r) = True"
| "is_fetch e = False"

fun is_flash :: "event \<Rightarrow> bool" where
  "is_flash (FastbootBoot p) = True"
| "is_flash (AdbSideload p) = True"
| "is_flash (AdbPushFg p d) = True"
| "is_flash (AdbShell c) = True"
| "is_flash e = False"

definition is_fetch_or_flash :: "event \<Rightarrow> bool" where
  "is_fetch_or_flash e = (is_fetch e \<or> is_flash e)"

text \<open>The URLs for which a run asks the TWRP server.\<close>

fun twrp_url :: "event \<Rightarrow> string option" where
  "twrp_url (NewDownloadRequest url) = Some url"
| "twrp_url e = None"

definition twrp_urls :: "event list \<Rightarrow> string list" where
  "twrp_urls es = List.map_filter twrp_url es"

text \<open>The calls of \<^verbatim>\<open>fastboot.Unlock\<close> and \<^verbatim>\<open>fastboot.Reboot\<close> in a run, in their order.\<close>

definition unlock_calls :: "event list \<Rightarrow> event list" where
  "unlock_calls es = filter (\<lambda>e. e = FastbootUnlock \<or> e = FastbootReboot) es"

text \<open>What \<^verbatim>\<open>exit\<close> performs before \<^verbatim>\<open>os.Exit\<close> on the host of an environment.\<close>

definition exit_events :: "world \<Rightarrow> event list" where
  "exit_events w = (if GOOS w = ''windows'' then exit_prompt else [])"

text \<open>
  Three properties of a run that pass from the parts of a program to the whole: every event
  satisfies \<open>P\<close>; the outcome, if the run ends the process, satisfies \<open>P\<close>; a run that
  \<^verbatim>\<open>exit\<close> ends has the prompt of \<^verbatim>\<open>exit\<close> as its last events.
\<close>

definition all_events :: "(event \<Rightarrow> bool) \<Rightarrow> 'a run \<Rightarrow> bool" where
  "all_events P r = list_all P (events r)"

definition all_exits :: "(outcome \<Rightarrow> bool) \<Rightarrow> 'a run \<Rightarrow> bool" where
  "all_exits P r = (case result r of Inl out \<Rightarrow> P out | Inr x \<Rightarrow> True)"

definition prompted :: "'a run \<Rightarrow> bool" where
  "prompted r =
     (case result r of
        Inl (Exited code) \<Rightarrow> suffix exit_prompt (events r)
      | Inl (FlagExited status) \<Rightarrow> True
      | Inl (Panicked v) \<Rightarrow> True
      | Inr x \<Rightarrow> True)"

text \<open>The downloads that a run performs.\<close>

fun download_of :: "event \<Rightarrow> DownloadRequest option" where
  "download_of (Download r) = Some r"
| "download_of e = None"

definition downloads :: "event list \<Rightarrow> DownloadRequest list" where
  "downloads es = List.map_filter download_of es"

text \<open>
  A fetch performed twice in a row, the second time in the working directory that the
  first left: the two paths, and the working directory at the end.
\<close>

definition fetch_twice ::
  "(string set \<Rightarrow> (string \<times> string set) run) \<Rightarrow> string set
   \<Rightarrow> ((string \<times> string) \<times> string set) run" where
  "fetch_twice fetch fs =
     and_then (fetch fs) (\<lambda>(path, fs').
     and_then (fetch fs') (\<lambda>(path', fs'').
       ret ((path, path'), fs'')))"

section \<open>Concrete environments\<close>

text \<open>
  A Linux host, the phone booted normally and authorised for adb, the bootloader already
  unlocked, fastboot reporting the product \<^verbatim>\<open>QC_Reference_Phone\<close>, a working directory
  that is empty at the start and keeps every file a download writes, and no call failing.
\<close>

definition req0 :: "string \<Rightarrow> DownloadRequest" where
  "req0 name = \<lparr>Filename = name, Header = [], ProgressHandler = False\<rparr>"

definition world0 :: world where
  "world0 =
     \<lparr>Version = ''0.1'',
      MsgWelcome = ''Welcome'',
      MsgAdbIssue = ''Could not reach your device over adb'',
      MsgFixPerms = ''Fix your USB permissions'',
      MsgFastbootNoDeviceFound = ''No device in fastboot mode'',
      MsgIncompleteZip = ''The installer zip is incomplete'',
      MsgUnlockSuccess = ''Bootloader unlocked'',
      MsgSuccess = ''Installation complete'',
      GOOS = ''linux'',
      GOARCH = ''amd64'',
      path_Dir = (\<lambda>p. ''/opt/installer''),
      Parse_132 = Inr False,
      Executable_138 = Inr ''/opt/installer/installer'',
      Getenv_PATH = ''/usr/bin'',
      Setenv_144 = None,
      Chdir_152 = None,
      ReadLine_159 = Inr ''yes'',
      adb_Status_174 = (AdbReady, None),
      fastboot_Status_181 = (NoDevice, None),
      fastboot_Status_188 = (NoDevice, None),
      adb_Status_67 = (AdbReady, None),
      adb_Reboot_195 = None,
      fastboot_Status_203 = (FastbootReady, None),
      fastboot_Status_82 = (FastbootReady, None),
      GetProduct_214 = Inr ''QC_Reference_Phone'',
      Unlocked_227 = (True, None),
      Unlock_233 = None,
      RequestNethunter_245 = Inr (req0 ''nethunter.zip''),
      files = {},
      Download_261 = Inr ''nethunter.zip'',
      NewDownloadRequest_36 = (\<lambda>url. Inr (req0 ''twrp.img'')),
      Download_286 = Inr ''twrp.img'',
      RequestOxygenRecovery_295 = Inr (req0 ''recovery.img''),
      Download_311 = Inr ''recovery.img'',
      RequestFactory_321 = Inr (req0 ''factory.zip''),
      Download_337 = Inr ''factory.zip'',
      Boot_347 = None,
      ReadLine_355 = Inr [],
      Sideload_361 = None,
      ReadLine_369 = Inr [],
      Boot_376 = None,
      PushFg_385 = None,
      Shell_391 = None,
      Shell_401 = None,
      Shell_407 = None,
      Shell_413 = None,
      adb_Reboot_421 = None\<rparr>"

text \<open>The same run, but the device rejects the second wipe.\<close>

definition world_dalvik_fails :: world where
  "world_dalvik_fails = world0\<lparr>Shell_407 := Some ''device offline''\<rparr>"

text \<open>
  The phone is already in its bootloader, but at the first probe fastboot lacks the USB
  permissions; at the next probe it has them.
\<close>

definition world_usb_denied_first :: world where
  "world_usb_denied_first = world0\<lparr>fastboot_Status_188 := (UsbPermissionDenied, None)\<rparr>"

text \<open>
  The phone reboots into its bootloader, where fastboot sees it but lacks the USB
  permissions.
\<close>

definition world_usb_denied_after_reboot :: world where
  "world_usb_denied_after_reboot =
     world0\<lparr>fastboot_Status_203 := (UsbPermissionDenied, None),
            fastboot_Status_82 := (UsbPermissionDenied, None)\<rparr>"

text \<open>The phone booted normally, but adb is not authorised.\<close>

definition world_adb_unauthorized :: world where
  "world_adb_unauthorized = world0\<lparr>adb_Status_67 := (AdbUnauthorized, None)\<rparr>"

text \<open>The phone never shows up in fastboot after the reboot.\<close>

definition world_reboot_lost :: world where
  "world_reboot_lost = world0\<lparr>fastboot_Status_203 := (NoDevice, None)\<rparr>"

text \<open>The bootloader is locked; the operator confirms the unlock, or refuses it.\<close>

definition world_locked :: world where
  "world_locked = world0\<lparr>Unlocked_227 := (False, None)\<rparr>"

definition world_unlock_refused :: world where
  "world_unlock_refused =
     world0\<lparr>Unlocked_227 := (False, None), Unlock_233 := Some ''denied''\<rparr>"

text \<open>
  The query of the lock state fails; the boolean that comes with the error is true in the
  first environment and false in the second.
\<close>

definition world_query_fails :: world where
  "world_query_fails = world0\<lparr>Unlocked_227 := (True, Some ''timeout'')\<rparr>"

definition world_query_fails_false :: world where
  "world_query_fails_false = world0\<lparr>Unlocked_227 := (False, Some ''timeout'')\<rparr>"

text \<open>
  The query of the lock state fails with the boolean false, and the operator refuses the
  unlock.
\<close>

definition world_query_fails_refused :: world where
  "world_query_fails_refused =
     world0\<lparr>Unlocked_227 := (False, Some ''timeout''), Unlock_233 := Some ''denied''\<rparr>"

text \<open>
  The working directory of a second run: the four files are there, each under the name of
  its request.
\<close>

definition world_second_run :: world where
  "world_second_run =
     world0\<lparr>files := {''nethunter.zip'', ''twrp.img'', ''recovery.img'', ''factory.zip''}\<rparr>"

text \<open>The command line has a flag that is not defined, on Linux and on Windows.\<close>

definition world_bad_flag :: world where
  "world_bad_flag = world0\<lparr>Parse_132 := Inl 2\<rparr>"

definition world_windows_bad_flag :: world where
  "world_windows_bad_flag = world0\<lparr>GOOS := ''windows'', Parse_132 := Inl 2\<rparr>"

text \<open>The download of the second artifact fails.\<close>

definition world_twrp_download_fails :: world where
  "world_twrp_download_fails = world0\<lparr>Download_286 := Inl ''503 Service Unavailable''\<rparr>"

text \<open>\<^verbatim>\<open>os.Executable\<close> fails, on Linux and on Windows.\<close>

definition world_no_executable :: world where
  "world_no_executable = world0\<lparr>Executable_138 := Inl ''permission denied''\<rparr>"

definition world_windows_no_executable :: world where
  "world_windows_no_executable =
     world0\<lparr>GOOS := ''windows'', Executable_138 := Inl ''access denied''\<rparr>"

text \<open>A Windows host; the operator answers no.\<close>

definition world_windows_abort :: world where
  "world_windows_abort = world0\<lparr>GOOS := ''windows'', ReadLine_159 := Inr ''no''\<rparr>"

section \<open>Basic facts\<close>

lemmas exit_code_defs =
  SuccessBase_def SuccessUserAbort_def SuccessBootloaderUnlocked_def Success_def
  ErrorBase_def ErrorPrereqs_def ErrorUserInput_def ErrorUsbPerms_def ErrorAdb_def
  ErrorFastboot_def ErrorRemote_def ErrorTWRP_def

subsection \<open>Sequencing\<close>

text \<open>
  These equations bring a piece of the program into the shape of a decision tree over the
  answers of the environment, whose leaves are the events performed, followed by an exit
  or by the value of the piece. No equation copies a run.
\<close>

lemma and_then_pair:
  "and_then (es, Inl out) f = (es, Inl out)"
  "and_then (es, Inr x) f = prepend es (f x)"
  by (simp_all add: and_then_def prepend_def)

lemma seq_pair:
  "seq (es, Inl out) n = (es, Inl out)"
  "seq (es, Inr u) n = prepend es n"
  by (simp_all add: seq_def and_then_pair)

lemma and_then_ret: "and_then (ret x) f = f x"
  by (simp add: and_then_def ret_def)

lemma seq_ret: "seq (ret u) n = n"
  by (simp add: seq_def and_then_ret)

lemma seq_emit: "seq (emit e) n = prepend [e] n"
  by (simp add: seq_def emit_def and_then_pair)

lemma seq_iEcho: "seq (iEcho format a) n = prepend [Printf (format @ ''\<newline>'') a] n"
  by (simp add: iEcho_def seq_emit)

lemma seq_eEcho: "seq (eEcho msg) n = prepend [Printf (msg @ ''\<newline>'') []] n"
  by (simp add: eEcho_def seq_iEcho)

lemma emit_pair: "emit e = ([e], Inr ())"
  by (simp add: emit_def)

lemma iEcho_pair: "iEcho format a = ([Printf (format @ ''\<newline>'') a], Inr ())"
  by (simp add: iEcho_def emit_def)

lemma eEcho_pair: "eEcho msg = ([Printf (msg @ ''\<newline>'') []], Inr ())"
  by (simp add: eEcho_def iEcho_pair)

lemma ret_pair: "ret x = ([], Inr x)"
  by (simp add: ret_def)

lemma exit_pair: "exit w code = (exit_events w, Inl (Exited code))"
  by (simp add: exit_def seq_def and_then_def emit_def ret_def exit_prompt_def exit_events_def)

lemma and_then_exit: "and_then (exit w code) f = exit w code"
  by (simp add: exit_pair and_then_def)

lemma seq_exit: "seq (exit w code) n = exit w code"
  by (simp add: seq_def and_then_exit)

lemma and_then_prepend: "and_then (prepend es m) f = prepend es (and_then m f)"
  by (simp add: and_then_def prepend_def split: sum.splits)

lemma seq_prepend: "seq (prepend es m) n = prepend es (seq m n)"
  by (simp add: seq_def and_then_prepend)

lemma and_then_and_then: "and_then (and_then m f) g = and_then m (\<lambda>x. and_then (f x) g)"
  by (simp add: and_then_def split: sum.splits)

lemma seq_seq: "seq (seq a b) n = seq a (seq b n)"
  by (simp add: seq_def and_then_and_then)

lemma and_then_seq: "and_then (seq a b) f = seq a (and_then b f)"
  by (simp add: seq_def and_then_and_then)

lemma prepend_prepend: "prepend es (prepend es' r) = prepend (es @ es') r"
  by (simp add: prepend_def)

lemma prepend_pair: "prepend es (es', r) = (es @ es', r)"
  by (simp add: prepend_def)

lemma prepend_Nil: "prepend [] r = r"
  by (simp add: prepend_def)

lemma events_prepend: "events (prepend es r) = es @ events r"
  by (simp add: prepend_def events_def)

lemma result_prepend: "result (prepend es r) = result r"
  by (simp add: prepend_def result_def)

lemma events_pair: "events (es, r) = es"
  by (simp add: events_def)

lemma result_pair: "result (es, r) = r"
  by (simp add: result_def)

lemma events_exit: "events (exit w code) = exit_events w"
  by (simp add: exit_pair events_def)

lemma result_exit: "result (exit w code) = Inl (Exited code)"
  by (simp add: exit_pair result_def)

text \<open>A statement under an \<open>if\<close> or a \<open>case\<close> in front of the rest of the program.\<close>

lemmas seq_if = if_distrib [of "\<lambda>m. seq m n" for n]
lemmas seq_option = option.case_distrib [of "\<lambda>m. seq m n" for n]
lemmas seq_sum = sum.case_distrib [of "\<lambda>m. seq m n" for n]
lemmas seq_prod = prod.case_distrib [of "\<lambda>m. seq m n" for n]
lemmas and_then_if = if_distrib [of "\<lambda>m. and_then m f" for f]
lemmas and_then_option = option.case_distrib [of "\<lambda>m. and_then m f" for f]
lemmas and_then_sum = sum.case_distrib [of "\<lambda>m. and_then m f" for f]
lemmas and_then_prod = prod.case_distrib [of "\<lambda>m. and_then m f" for f]
lemmas prepend_if = if_distrib [of "prepend es" for es]
lemmas prepend_option = option.case_distrib [of "prepend es" for es]
lemmas prepend_sum = sum.case_distrib [of "prepend es" for es]
lemmas prepend_prod = prod.case_distrib [of "prepend es" for es]

lemmas run_simps =
  and_then_pair seq_pair and_then_ret seq_ret seq_emit seq_iEcho seq_eEcho
  and_then_exit seq_exit and_then_prepend seq_prepend and_then_and_then seq_seq and_then_seq
  prepend_prepend prepend_pair prepend_Nil
  seq_if seq_option seq_sum seq_prod
  and_then_if and_then_option and_then_sum and_then_prod
  prepend_if prepend_option prepend_sum prepend_prod
  emit_pair iEcho_pair eEcho_pair ret_pair
  events_prepend result_prepend events_pair result_pair events_exit result_exit
  Let_def

text \<open>
  The branches of a tree are simplified each under its own condition; the texts that are
  printed are left as they stand.
\<close>

lemma Printf_opaque: "Printf f a = Printf f a"
  by (rule refl)

lemma Print_opaque: "Print s = Print s"
  by (rule refl)

lemmas tree_cong =
  if_cong option.case_cong sum.case_cong prod.case_cong Printf_opaque Print_opaque

lemmas events_tree =
  if_distrib [of events] option.case_distrib [of events] sum.case_distrib [of events]
  prod.case_distrib [of events]

lemmas result_tree =
  if_distrib [of result] option.case_distrib [of result] sum.case_distrib [of result]
  prod.case_distrib [of result]

lemmas actions_tree =
  if_distrib [of actions] option.case_distrib [of actions] sum.case_distrib [of actions]
  prod.case_distrib [of actions]

lemma actions_simps:
  "actions [] = []"
  "actions (e # es) = (if is_console e then actions es else e # actions es)"
  "actions (xs @ ys) = actions xs @ actions ys"
  "actions (exit_events w) = []"
  by (simp_all add: actions_def exit_events_def exit_prompt_def)

text \<open>The events and the result of a composed run.\<close>

lemma events_and_then:
  "events (and_then m f) =
     (case result m of Inl out \<Rightarrow> events m | Inr x \<Rightarrow> events m @ events (f x))"
  by (simp add: and_then_def events_def result_def split: sum.splits)

lemma result_and_then:
  "result (and_then m f) = (case result m of Inl out \<Rightarrow> Inl out | Inr x \<Rightarrow> result (f x))"
  by (simp add: and_then_def result_def split: sum.splits)

lemma events_seq:
  "events (seq m n) =
     (case result m of Inl out \<Rightarrow> events m | Inr x \<Rightarrow> events m @ events n)"
  by (simp add: seq_def events_and_then)

lemma result_seq:
  "result (seq m n) = (case result m of Inl out \<Rightarrow> Inl out | Inr x \<Rightarrow> result n)"
  by (simp add: seq_def result_and_then)

subsection \<open>Properties that pass from the parts to the whole\<close>

lemma run_ifI: "(c \<Longrightarrow> Q a) \<Longrightarrow> (\<not> c \<Longrightarrow> Q b) \<Longrightarrow> Q (if c then a else b)"
  by simp

lemma run_optionI:
  "(x = None \<Longrightarrow> Q a) \<Longrightarrow> (\<And>e. x = Some e \<Longrightarrow> Q (b e))
   \<Longrightarrow> Q (case x of None \<Rightarrow> a | Some e \<Rightarrow> b e)"
  by (simp split: option.split)

lemma run_sumI:
  "(\<And>e. s = Inl e \<Longrightarrow> Q (a e)) \<Longrightarrow> (\<And>v. s = Inr v \<Longrightarrow> Q (b v))
   \<Longrightarrow> Q (case s of Inl e \<Rightarrow> a e | Inr v \<Rightarrow> b v)"
  by (simp split: sum.split)

lemma run_prodI:
  "(\<And>a b. p = (a, b) \<Longrightarrow> Q (f a b)) \<Longrightarrow> Q (case p of (a, b) \<Rightarrow> f a b)"
  by (simp split: prod.split)

lemma run_LetI: "Q (f x) \<Longrightarrow> Q (Let x f)"
  by simp

lemma all_events_leaves:
  "all_events P (ret x)"
  "P e \<Longrightarrow> all_events P (emit e)"
  "P (Printf (format @ ''\<newline>'') a) \<Longrightarrow> all_events P (iEcho format a)"
  "P (Printf (msg @ ''\<newline>'') []) \<Longrightarrow> all_events P (eEcho msg)"
  "P (Print ''\<newline>Press [Enter] to exit...'') \<Longrightarrow> P ReadLine \<Longrightarrow> all_events P (exit w code)"
  "all_events P ([], r')"
  by (simp_all add: all_events_def ret_pair emit_pair iEcho_pair eEcho_pair exit_pair
        events_pair exit_events_def exit_prompt_def)

lemma all_events_and_then:
  assumes "all_events P m" and "\<And>x. all_events P (f x)"
  shows "all_events P (and_then m f)"
proof (cases "result m")
  case (Inl out)
  then show ?thesis using assms(1) by (simp add: all_events_def events_and_then)
next
  case (Inr x)
  then show ?thesis
    using assms(1) assms(2) [of x] by (simp add: all_events_def events_and_then)
qed

lemma all_events_seq: "all_events P m \<Longrightarrow> all_events P n \<Longrightarrow> all_events P (seq m n)"
  by (simp add: seq_def all_events_and_then)

lemmas all_events_intros =
  all_events_leaves all_events_and_then all_events_seq
  run_ifI [where Q = "all_events P" for P] run_optionI [where Q = "all_events P" for P]
  run_sumI [where Q = "all_events P" for P] run_prodI [where Q = "all_events P" for P]
  run_LetI [where Q = "all_events P" for P]

lemma all_events_filter: "all_events (\<lambda>e. \<not> P e) r \<Longrightarrow> filter P (events r) = []"
  by (simp add: all_events_def list_all_iff filter_empty_conv)

lemma all_exits_leaves:
  "all_exits P (ret x)"
  "all_exits P (emit e)"
  "all_exits P (iEcho format a)"
  "all_exits P (eEcho msg)"
  "P (Exited code) \<Longrightarrow> all_exits P (exit w code)"
  "P out \<Longrightarrow> all_exits P (es, Inl out)"
  by (simp_all add: all_exits_def ret_pair emit_pair iEcho_pair eEcho_pair exit_pair
        result_pair)

lemma all_exits_and_then:
  assumes "all_exits P m" and "\<And>x. all_exits P (f x)"
  shows "all_exits P (and_then m f)"
proof (cases "result m")
  case (Inl out)
  then show ?thesis using assms(1) by (simp add: all_exits_def result_and_then)
next
  case (Inr x)
  then show ?thesis using assms(2) [of x] by (simp add: all_exits_def result_and_then)
qed

lemma all_exits_seq: "all_exits P m \<Longrightarrow> all_exits P n \<Longrightarrow> all_exits P (seq m n)"
  by (simp add: seq_def all_exits_and_then)

lemmas all_exits_intros =
  all_exits_leaves all_exits_and_then all_exits_seq
  run_ifI [where Q = "all_exits P" for P] run_optionI [where Q = "all_exits P" for P]
  run_sumI [where Q = "all_exits P" for P] run_prodI [where Q = "all_exits P" for P]
  run_LetI [where Q = "all_exits P" for P]

lemma prompted_leaves:
  "prompted (ret x)"
  "prompted (emit e)"
  "prompted (iEcho format a)"
  "prompted (eEcho msg)"
  "GOOS w = ''windows'' \<Longrightarrow> prompted (exit w code)"
  "prompted (es, Inl (Panicked v))"
  "prompted (es, Inl (FlagExited status))"
  by (simp_all add: prompted_def ret_pair emit_pair iEcho_pair eEcho_pair exit_pair
        result_pair events_pair exit_events_def)

lemma prompted_and_then:
  assumes "prompted m" and "\<And>x. prompted (f x)"
  shows "prompted (and_then m f)"
proof (cases "result m")
  case (Inl out)
  then show ?thesis
    using assms(1)
    by (auto simp: prompted_def result_and_then events_and_then split: outcome.splits)
next
  case (Inr x)
  then show ?thesis
    using assms(2) [of x]
    by (auto simp: prompted_def result_and_then events_and_then suffix_append
             split: sum.splits outcome.splits)
qed

lemma prompted_seq: "prompted m \<Longrightarrow> prompted n \<Longrightarrow> prompted (seq m n)"
  by (simp add: seq_def prompted_and_then)

lemmas prompted_intros =
  prompted_leaves prompted_and_then prompted_seq
  run_ifI [where Q = prompted] run_optionI [where Q = prompted]
  run_sumI [where Q = prompted] run_prodI [where Q = prompted]
  run_LetI [where Q = prompted]

subsection \<open>Evaluating a run in a concrete environment\<close>

lemmas piece_defs =
  main_flags_def main_setup_def main_consent_def main_tools_def main_detect_def
  main_reboot_def verifyAdbStatusOrAbort_def verifyFastbootStatusOrAbort_def
  main_identify_def main_unlock_def main_fetch_def fetch_nethunter_def fetch_twrp_def
  fetch_oxygenrecovery_def fetch_factory_def RequestTWRP_def genTWRPDeviceUrl_def
  TWRPEndpoint_def TWRPVersionPrefix_def TWRPExtension_def
  main_flash_factory_def main_flash_update_def main_wipe_def main_final_def

lemmas from_defs =
  main_def main_from_detect_def main_from_identify_def main_from_unlock_def
  main_from_fetch_def main_from_flash_def main_from_wipe_def

lemmas eval_defs =
  from_defs piece_defs run_simps actions_simps req0_def exit_code_defs exit_events_def

text \<open>The actions of a run whose first part is known by its events and its result.\<close>

lemma actions_events_seq:
  "actions (events (seq m n)) =
     (case result m of
        Inl out \<Rightarrow> actions (events m)
      | Inr u \<Rightarrow> actions (events m) @ actions (events n))"
  by (simp add: events_seq actions_simps split: sum.splits)

section \<open>Detecting the device mode\<close>

text \<open>
  Claim C1, as the specification states it, fails: a status other than FastbootReady can
  advance without a reboot, and UsbPermissionDenied need not end the run in this phase.
  Here fastboot answers the probe of line 188 with UsbPermissionDenied. The phase ends
  without an exit and without a reboot; the later probes find the phone ready, and the
  run installs and exits with 0.
\<close>

theorem detect_usb_denied_counterexample:
  "fst (fastboot_Status_188 world_usb_denied_first) = UsbPermissionDenied
   \<and> actions (events (main_detect world_usb_denied_first)) = [FastbootStatus]
   \<and> result (main_detect world_usb_denied_first) = Inr ()
   \<and> result (main world_usb_denied_first) = Inl (Exited 0)"
  by (simp add: world_usb_denied_first_def world0_def eval_defs actions_def)

text \<open>
  Claim C1, amended. The phase probes fastboot first and looks at nothing but whether the
  status is NoDevice. Every other status (FastbootReady, but UsbPermissionDenied and
  Unknown as well) advances to the fastboot check of line 211 with no further call: no adb
  probe and no reboot. When fastboot reports NoDevice, adb is probed: an error of the
  probe, NoDevice or AdbUnauthorized end the run with \<open>ErrorAdb\<close>, UsbPermissionDenied ends
  it with \<open>ErrorUsbPerms\<close>, in each case without a reboot; every other status (AdbReady, and
  Unknown and FastbootReady as well) goes on to the reboot into the bootloader.
\<close>

theorem detect_routing:
  "actions (events (main_detect w)) =
     (if fst (fastboot_Status_188 w) \<noteq> NoDevice then [FastbootStatus]
      else if snd (adb_Status_67 w) \<noteq> None
              \<or> fst (adb_Status_67 w) = NoDevice
              \<or> fst (adb_Status_67 w) = AdbUnauthorized
              \<or> fst (adb_Status_67 w) = UsbPermissionDenied
        then [FastbootStatus, AdbStatus]
      else FastbootStatus # AdbStatus # actions (events (main_reboot w)))
   \<and> result (main_detect w) =
     (if fst (fastboot_Status_188 w) \<noteq> NoDevice then Inr ()
      else if snd (adb_Status_67 w) \<noteq> None then Inl (Exited ErrorAdb)
      else if fst (adb_Status_67 w) = NoDevice \<or> fst (adb_Status_67 w) = AdbUnauthorized
        then Inl (Exited ErrorAdb)
      else if fst (adb_Status_67 w) = UsbPermissionDenied then Inl (Exited ErrorUsbPerms)
      else result (main_reboot w))
   \<and> events (main_from_detect w) =
     (case result (main_detect w) of
        Inl out \<Rightarrow> events (main_detect w)
      | Inr u \<Rightarrow>
          events (main_detect w)
          @ events (seq (verifyFastbootStatusOrAbort w) (main_from_identify w)))"
proof (intro conjI)
  show "actions (events (main_detect w)) =
     (if fst (fastboot_Status_188 w) \<noteq> NoDevice then [FastbootStatus]
      else if snd (adb_Status_67 w) \<noteq> None
              \<or> fst (adb_Status_67 w) = NoDevice
              \<or> fst (adb_Status_67 w) = AdbUnauthorized
              \<or> fst (adb_Status_67 w) = UsbPermissionDenied
        then [FastbootStatus, AdbStatus]
      else FastbootStatus # AdbStatus # actions (events (main_reboot w)))"
    by (cases "adb_Status_67 w")
       (simp add: main_detect_def verifyAdbStatusOrAbort_def run_simps seq_prepend
          actions_events_seq actions_simps split: option.split)
  show "result (main_detect w) =
     (if fst (fastboot_Status_188 w) \<noteq> NoDevice then Inr ()
      else if snd (adb_Status_67 w) \<noteq> None then Inl (Exited ErrorAdb)
      else if fst (adb_Status_67 w) = NoDevice \<or> fst (adb_Status_67 w) = AdbUnauthorized
        then Inl (Exited ErrorAdb)
      else if fst (adb_Status_67 w) = UsbPermissionDenied then Inl (Exited ErrorUsbPerms)
      else result (main_reboot w))"
    by (cases "adb_Status_67 w")
       (simp add: main_detect_def verifyAdbStatusOrAbort_def run_simps result_seq
          split: option.split)
  show "events (main_from_detect w) =
     (case result (main_detect w) of
        Inl out \<Rightarrow> events (main_detect w)
      | Inr u \<Rightarrow>
          events (main_detect w)
          @ events (seq (verifyFastbootStatusOrAbort w) (main_from_identify w)))"
    by (simp only: main_from_detect_def events_seq)
qed

text \<open>
  The theorem at three environments: fastboot lacks the permissions at the first probe;
  adb is not authorised; the phone is ready for adb and is rebooted.
\<close>

theorem detect_routing_witness:
  "actions (events (main_detect world_usb_denied_first)) = [FastbootStatus]
   \<and> result (main_detect world_usb_denied_first) = Inr ()
   \<and> actions (events (main_detect world_adb_unauthorized)) = [FastbootStatus, AdbStatus]
   \<and> result (main_detect world_adb_unauthorized) = Inl (Exited 68)
   \<and> actions (events (main_detect world0)) =
       [FastbootStatus, AdbStatus, AdbReboot ''bootloader'', Sleep 7000, FastbootStatus]
   \<and> result (main_detect world0) = Inr ()"
  using detect_routing [of world_usb_denied_first] detect_routing [of world_adb_unauthorized]
    detect_routing [of world0]
  by (simp add: world_usb_denied_first_def world_adb_unauthorized_def world0_def
        main_reboot_def run_simps actions_simps ErrorAdb_def)

section \<open>The bootloader lock\<close>

text \<open>
  After the unlock phase nothing calls \<^verbatim>\<open>fastboot.Unlock\<close> or \<^verbatim>\<open>fastboot.Reboot\<close>, and the
  fetch phase always makes its first request.
\<close>

lemma no_unlock_in_main_fetch:
  "all_events (\<lambda>e. \<not> (e = FastbootUnlock \<or> e = FastbootReboot)) (main_fetch w p)"
  unfolding main_fetch_def fetch_nethunter_def fetch_twrp_def fetch_oxygenrecovery_def
    fetch_factory_def RequestTWRP_def
  by (intro all_events_intros; simp)

lemma no_unlock_in_flash:
  "all_events (\<lambda>e. \<not> (e = FastbootUnlock \<or> e = FastbootReboot)) (main_from_flash w p)"
  unfolding main_from_flash_def main_flash_factory_def main_flash_update_def
    main_from_wipe_def main_wipe_def main_final_def
  by (intro all_events_intros; simp)

lemma no_unlock_from_fetch: "unlock_calls (events (main_from_fetch w p)) = []"
  unfolding unlock_calls_def main_from_fetch_def
  by (intro all_events_filter all_events_and_then no_unlock_in_main_fetch no_unlock_in_flash)

lemma fetch_nethunter_starts:
  "\<exists>es. events (fetch_nethunter w fs p) =
     Printf ''Downloading the latest release for your device (%q)...\<newline>'' [p]
     # RequestNethunter # es"
  by (simp add: fetch_nethunter_def seq_iEcho seq_emit prepend_prepend events_prepend)

lemma request_from_fetch: "RequestNethunter \<in> set (events (main_from_fetch w p))"
proof -
  have "RequestNethunter \<in> set (events (fetch_nethunter w (files w) p))"
    using fetch_nethunter_starts [of w "files w" p] by auto
  then have "RequestNethunter \<in> set (events (main_fetch w p))"
    by (simp add: main_fetch_def events_and_then split: sum.split)
  then show ?thesis
    by (simp add: main_from_fetch_def events_and_then split: sum.split)
qed

text \<open>The unlock phase alone, by the boolean that the query returned.\<close>

lemma main_unlock_unlocked_eq:
  assumes "fst (Unlocked_227 w)"
  shows "main_unlock w =
     (FastbootUnlocked
      # (case snd (Unlocked_227 w) of
           Some e \<Rightarrow>
             [Printf (''Warning: unable to determine bootloader lock state: '' @ e
                      @ ''\<newline>'') []]
         | None \<Rightarrow> []),
      Inr ())"
  using assms
  by (cases "Unlocked_227 w") (simp add: main_unlock_def run_simps split: option.split)

lemma main_unlock_locked_eq:
  assumes "\<not> fst (Unlocked_227 w)"
  shows "main_unlock w =
     prepend
       (FastbootUnlocked
        # (case snd (Unlocked_227 w) of
             Some e \<Rightarrow>
               [Printf (''Warning: unable to determine bootloader lock state: '' @ e
                        @ ''\<newline>'') []]
           | None \<Rightarrow> [])
        @ [Printf (''Unlocking bootloader, you will need to confirm this on your device...''
                   @ ''\<newline>'') [],
           FastbootUnlock])
       (case Unlock_233 w of
          Some e \<Rightarrow>
            prepend [Printf (''Failed to unlock bootloader: '' @ e @ ''\<newline>'') []]
              (exit w ErrorFastboot)
        | None \<Rightarrow>
            prepend [FastbootReboot, Printf (MsgUnlockSuccess w @ ''\<newline>'') []]
              (exit w SuccessBootloaderUnlocked))"
  using assms
  by (cases "Unlocked_227 w")
     (simp add: main_unlock_def run_simps split: option.split)

lemma main_unlock_unlocked:
  assumes "fst (Unlocked_227 w)"
  shows "result (main_unlock w) = Inr ()" and "unlock_calls (events (main_unlock w)) = []"
  by (simp_all add: main_unlock_unlocked_eq [OF assms] result_pair events_pair
        unlock_calls_def split: option.split)

lemma main_unlock_locked:
  assumes "\<not> fst (Unlocked_227 w)"
  shows "result (main_unlock w) =
           Inl (Exited (if Unlock_233 w = None then SuccessBootloaderUnlocked
                        else ErrorFastboot))"
    and "unlock_calls (events (main_unlock w)) =
           (if Unlock_233 w = None then [FastbootUnlock, FastbootReboot]
            else [FastbootUnlock])"
    and "filter is_fetch_or_flash (events (main_unlock w)) = []"
  by (simp_all add: main_unlock_locked_eq [OF assms] result_prepend events_prepend
        result_exit events_exit exit_events_def exit_prompt_def unlock_calls_def
        is_fetch_or_flash_def split: option.split cong: Printf_opaque)

text \<open>
  Claim C2, as the specification states it, fails: the bootloader is locked and the unlock
  is refused. \<^verbatim>\<open>fastboot.Unlock\<close> is called once, \<^verbatim>\<open>fastboot.Reboot\<close> is not called, and the
  run ends with \<open>ErrorFastboot\<close> (69), not with \<open>SuccessBootloaderUnlocked\<close> (34).
\<close>

theorem unlock_refused_counterexample:
  "fst (Unlocked_227 world_unlock_refused) = False
   \<and> unlock_calls (events (main world_unlock_refused)) = [FastbootUnlock]
   \<and> result (main world_unlock_refused) = Inl (Exited 69)
   \<and> SuccessBootloaderUnlocked = 34"
  by (simp add: world_unlock_refused_def world0_def eval_defs unlock_calls_def)

text \<open>
  Claim C2, amended. From the unlock phase to the end of the run:
  if the query returned true, neither \<^verbatim>\<open>fastboot.Unlock\<close> nor \<^verbatim>\<open>fastboot.Reboot\<close> is ever
  called, the phase ends without an exit, and the run goes on with the fetch phase (whose
  first request it makes);
  if the query returned false and the unlock succeeds, \<^verbatim>\<open>fastboot.Unlock\<close> is called once,
  then \<^verbatim>\<open>fastboot.Reboot\<close> once, and the run ends with \<open>SuccessBootloaderUnlocked\<close> with no
  event of a fetch or flash phase;
  if the query returned false and the unlock fails, \<^verbatim>\<open>fastboot.Unlock\<close> is called once,
  \<^verbatim>\<open>fastboot.Reboot\<close> is not called, and the run ends with \<open>ErrorFastboot\<close>, again with no
  event of a fetch or flash phase.
\<close>

theorem unlock_branches:
  "(if fst (Unlocked_227 w)
    then unlock_calls (events (main_from_unlock w p)) = []
       \<and> result (main_unlock w) = Inr ()
       \<and> events (main_from_unlock w p) = events (main_unlock w) @ events (main_from_fetch w p)
       \<and> result (main_from_unlock w p) = result (main_from_fetch w p)
       \<and> RequestNethunter \<in> set (events (main_from_unlock w p))
    else if Unlock_233 w = None
    then unlock_calls (events (main_from_unlock w p)) = [FastbootUnlock, FastbootReboot]
       \<and> result (main_from_unlock w p) = Inl (Exited SuccessBootloaderUnlocked)
       \<and> filter is_fetch_or_flash (events (main_from_unlock w p)) = []
    else unlock_calls (events (main_from_unlock w p)) = [FastbootUnlock]
       \<and> result (main_from_unlock w p) = Inl (Exited ErrorFastboot)
       \<and> filter is_fetch_or_flash (events (main_from_unlock w p)) = [])"
proof (cases "fst (Unlocked_227 w)")
  case True
  note u = main_unlock_unlocked [OF True]
  have "unlock_calls (events (main_from_unlock w p)) = []"
    using u no_unlock_from_fetch [of w p]
    by (simp add: main_from_unlock_def events_seq unlock_calls_def)
  moreover have "events (main_from_unlock w p) =
      events (main_unlock w) @ events (main_from_fetch w p)"
    using u by (simp add: main_from_unlock_def events_seq)
  moreover have "result (main_from_unlock w p) = result (main_from_fetch w p)"
    using u by (simp add: main_from_unlock_def result_seq)
  moreover have "RequestNethunter \<in> set (events (main_from_unlock w p))"
    using u request_from_fetch [of w p] by (simp add: main_from_unlock_def events_seq)
  ultimately show ?thesis using True u by simp
next
  case False
  note l = main_unlock_locked [OF False]
  have "events (main_from_unlock w p) = events (main_unlock w)"
    and "result (main_from_unlock w p) = result (main_unlock w)"
    using l(1) by (simp_all add: main_from_unlock_def events_seq result_seq)
  then show ?thesis using False l by simp
qed

text \<open>
  The theorem at three environments: already unlocked; locked and the unlock confirmed;
  locked and the unlock refused.
\<close>

theorem unlock_branches_witness:
  "unlock_calls (events (main_from_unlock world0 ''QC_Reference_Phone'')) = []
   \<and> result (main_unlock world0) = Inr ()
   \<and> unlock_calls (events (main_from_unlock world_locked ''QC_Reference_Phone'')) =
       [FastbootUnlock, FastbootReboot]
   \<and> result (main_from_unlock world_locked ''QC_Reference_Phone'') = Inl (Exited 34)
   \<and> unlock_calls (events (main_from_unlock world_unlock_refused ''QC_Reference_Phone'')) =
       [FastbootUnlock]
   \<and> result (main_from_unlock world_unlock_refused ''QC_Reference_Phone'') = Inl (Exited 69)"
proof -
  have a: "fst (Unlocked_227 world0)"
    and b: "\<not> fst (Unlocked_227 world_locked)" "Unlock_233 world_locked = None"
    and c: "\<not> fst (Unlocked_227 world_unlock_refused)"
      "\<not> Unlock_233 world_unlock_refused = None"
    by (simp_all add: world0_def world_locked_def world_unlock_refused_def)
  have "unlock_calls (events (main_from_unlock world0 ''QC_Reference_Phone'')) = []"
    and "result (main_unlock world0) = Inr ()"
    using unlock_branches [of world0 "''QC_Reference_Phone''", unfolded if_P [OF a]]
    by blast+
  moreover
  have "unlock_calls (events (main_from_unlock world_locked ''QC_Reference_Phone'')) =
       [FastbootUnlock, FastbootReboot]"
    and "result (main_from_unlock world_locked ''QC_Reference_Phone'') =
       Inl (Exited SuccessBootloaderUnlocked)"
    using unlock_branches [of world_locked "''QC_Reference_Phone''",
        unfolded if_not_P [OF b(1)] if_P [OF b(2)]]
    by blast+
  moreover
  have "unlock_calls (events (main_from_unlock world_unlock_refused ''QC_Reference_Phone''))
        = [FastbootUnlock]"
    and "result (main_from_unlock world_unlock_refused ''QC_Reference_Phone'') =
       Inl (Exited ErrorFastboot)"
    using unlock_branches [of world_unlock_refused "''QC_Reference_Phone''",
        unfolded if_not_P [OF c(1)] if_not_P [OF c(2)]]
    by blast+
  ultimately show ?thesis
    by (simp add: SuccessBootloaderUnlocked_def ErrorFastboot_def)
qed

section \<open>The product name\<close>

lemma twrp_urls_simps:
  "twrp_urls [] = []"
  "twrp_urls (e # es) = (case twrp_url e of None \<Rightarrow> twrp_urls es | Some u \<Rightarrow> u # twrp_urls es)"
  "twrp_urls (xs @ ys) = twrp_urls xs @ twrp_urls ys"
  by (auto simp: twrp_urls_def List.map_filter_def split: option.split)

text \<open>Apart from the request for TWRP, no line from the unlock phase on asks the TWRP server.\<close>

lemma no_twrp_url_in_unlock: "all_events (\<lambda>e. twrp_url e = None) (main_unlock w)"
  unfolding main_unlock_def by (intro all_events_intros; simp)

lemma no_twrp_url_in_fetch_nethunter:
  "all_events (\<lambda>e. twrp_url e = None) (fetch_nethunter w fs p)"
  unfolding fetch_nethunter_def by (intro all_events_intros; simp)

lemma no_twrp_url_in_fetch_oxygenrecovery:
  "all_events (\<lambda>e. twrp_url e = None) (fetch_oxygenrecovery w fs t)"
  unfolding fetch_oxygenrecovery_def by (intro all_events_intros; simp)

lemma no_twrp_url_in_fetch_factory: "all_events (\<lambda>e. twrp_url e = None) (fetch_factory w fs)"
  unfolding fetch_factory_def by (intro all_events_intros; simp)

lemma no_twrp_url_in_flash: "all_events (\<lambda>e. twrp_url e = None) (main_from_flash w ps)"
  unfolding main_from_flash_def main_flash_factory_def main_flash_update_def
    main_from_wipe_def main_wipe_def main_final_def
  by (intro all_events_intros; simp)

lemma the_twrp_url_in_fetch_twrp:
  "all_events (\<lambda>e. twrp_url e = None \<or> twrp_url e = Some (genTWRPDeviceUrl p)) (fetch_twrp w fs p)"
  unfolding fetch_twrp_def RequestTWRP_def by (intro all_events_intros; simp)

lemma all_events_mono:
  "all_events P r \<Longrightarrow> (\<And>e. P e \<Longrightarrow> Q e) \<Longrightarrow> all_events Q r"
  by (auto simp: all_events_def list_all_iff)

lemma twrp_urls_from_unlock:
  "all_events (\<lambda>e. twrp_url e = None \<or> twrp_url e = Some (genTWRPDeviceUrl p))
     (main_from_unlock w p)"
  unfolding main_from_unlock_def main_from_fetch_def main_fetch_def
  by (intro all_events_seq all_events_and_then the_twrp_url_in_fetch_twrp
        all_events_mono [OF no_twrp_url_in_unlock]
        all_events_mono [OF no_twrp_url_in_fetch_nethunter]
        all_events_mono [OF no_twrp_url_in_fetch_oxygenrecovery]
        all_events_mono [OF no_twrp_url_in_fetch_factory]
        all_events_mono [OF no_twrp_url_in_flash] all_events_leaves
        run_prodI [where Q = "all_events P" for P])
     simp_all

lemma twrp_urls_all_events:
  assumes "all_events (\<lambda>e. twrp_url e = None \<or> twrp_url e = Some u) r"
  shows "list_all (\<lambda>v. v = u) (twrp_urls (events r))"
proof -
  have "list_all (\<lambda>e. twrp_url e = None \<or> twrp_url e = Some u) es
        \<Longrightarrow> list_all (\<lambda>v. v = u) (twrp_urls es)" for es
    by (induction es) (auto simp: twrp_urls_simps split: option.splits)
  then show ?thesis using assms by (simp add: all_events_def)
qed

text \<open>
  Claim C3 does not hold of the code. When fastboot reports the product
  \<^verbatim>\<open>QC_Reference_Phone\<close>, the identification phase returns this very name: the branch of
  line 222 declares a new variable and leaves \<^verbatim>\<open>product\<close> as it is. The rest of the run is
  \<^verbatim>\<open>main_from_unlock\<close> with this name, and every URL for which it asks the TWRP server is
  the one built from \<^verbatim>\<open>QC_Reference_Phone\<close>, which is not the one of \<^verbatim>\<open>cheeseburger\<close>.
\<close>

theorem product_not_normalised:
  assumes "GetProduct_214 w = Inr ''QC_Reference_Phone''"
  shows
    "result (main_identify w) = Inr ''QC_Reference_Phone''
     \<and> events (main_from_identify w) =
         events (main_identify w) @ events (main_from_unlock w ''QC_Reference_Phone'')
     \<and> list_all
         (\<lambda>url. url = ''https://dl.twrp.me/QC_Reference_Phone/twrp-3.1.1-1-QC_Reference_Phone.img'')
         (twrp_urls (events (main_from_identify w)))
     \<and> genTWRPDeviceUrl ''cheeseburger'' =
         ''https://dl.twrp.me/cheeseburger/twrp-3.1.1-1-cheeseburger.img''"
proof -
  have r: "result (main_identify w) = Inr ''QC_Reference_Phone''"
    using assms by (simp add: main_identify_def run_simps)
  have i: "twrp_urls (events (main_identify w)) = []"
    using assms by (simp add: main_identify_def run_simps twrp_urls_simps)
  have e: "events (main_from_identify w) =
      events (main_identify w) @ events (main_from_unlock w ''QC_Reference_Phone'')"
    using r by (simp add: main_from_identify_def events_and_then)
  have u: "genTWRPDeviceUrl ''QC_Reference_Phone'' =
      ''https://dl.twrp.me/QC_Reference_Phone/twrp-3.1.1-1-QC_Reference_Phone.img''"
    by (simp add: genTWRPDeviceUrl_def TWRPEndpoint_def TWRPVersionPrefix_def
          TWRPExtension_def)
  have "list_all
      (\<lambda>url. url = ''https://dl.twrp.me/QC_Reference_Phone/twrp-3.1.1-1-QC_Reference_Phone.img'')
      (twrp_urls (events (main_from_unlock w ''QC_Reference_Phone'')))"
    using twrp_urls_all_events [OF twrp_urls_from_unlock [of "''QC_Reference_Phone''" w]]
    unfolding u .
  then have "list_all
      (\<lambda>url. url = ''https://dl.twrp.me/QC_Reference_Phone/twrp-3.1.1-1-QC_Reference_Phone.img'')
      (twrp_urls (events (main_from_identify w)))"
    by (simp add: e twrp_urls_simps i)
  moreover have "genTWRPDeviceUrl ''cheeseburger'' =
      ''https://dl.twrp.me/cheeseburger/twrp-3.1.1-1-cheeseburger.img''"
    by (simp add: genTWRPDeviceUrl_def TWRPEndpoint_def TWRPVersionPrefix_def
          TWRPExtension_def)
  ultimately show ?thesis using r e by simp
qed

text \<open>The whole run in the environment of the scenario: one request, for the wrong URL.\<close>

lemma scenario_twrp_url:
  "twrp_urls (events (main world0)) =
     [''https://dl.twrp.me/QC_Reference_Phone/twrp-3.1.1-1-QC_Reference_Phone.img'']"
  by (simp add: world0_def eval_defs twrp_urls_simps cong: Printf_opaque Print_opaque)

theorem product_not_normalised_witness:
  "result (main_identify world0) = Inr ''QC_Reference_Phone''
   \<and> list_all
       (\<lambda>url. url = ''https://dl.twrp.me/QC_Reference_Phone/twrp-3.1.1-1-QC_Reference_Phone.img'')
       (twrp_urls (events (main_from_identify world0)))"
proof -
  have "GetProduct_214 world0 = Inr ''QC_Reference_Phone''"
    by (simp add: world0_def)
  from product_not_normalised [OF this] show ?thesis by blast
qed

section \<open>The four blocks of the fetch phase\<close>

lemma requests_of_simps:
  "requests_of [] = []"
  "requests_of (e # es) =
     (case requested e of None \<Rightarrow> requests_of es | Some a \<Rightarrow> a # requests_of es)"
  "requests_of (xs @ ys) = requests_of xs @ requests_of ys"
  "requests_of (exit_events w) = []"
  by (auto simp: requests_of_def List.map_filter_def exit_events_def exit_prompt_def
           split: option.split)

lemma downloads_simps:
  "downloads [] = []"
  "downloads (e # es) =
     (case download_of e of None \<Rightarrow> downloads es | Some r \<Rightarrow> r # downloads es)"
  "downloads (xs @ ys) = downloads xs @ downloads ys"
  "downloads (exit_events w) = []"
  by (auto simp: downloads_def List.map_filter_def exit_events_def exit_prompt_def
           split: option.split)

text \<open>
  Each block makes exactly one request. It fails when its request fails, and when a
  download that it performs fails; a block that fails ends the run with \<open>ErrorRemote\<close>.
\<close>

lemma fetch_nethunter_requests: "requests_of (events (fetch_nethunter w fs p)) = [Nethunter]"
  by (cases "RequestNethunter_245 w"; cases "Download_261 w";
      simp add: fetch_nethunter_def run_simps requests_of_simps)

lemma fetch_nethunter_result:
  "result (fetch_nethunter w fs p) =
     (case RequestNethunter_245 w of
        Inl e \<Rightarrow> Inl (Exited ErrorRemote)
      | Inr req \<Rightarrow>
          if Filename req \<in> fs then Inr (Filename req, fs)
          else (case Download_261 w of
                  Inl e \<Rightarrow> Inl (Exited ErrorRemote)
                | Inr path \<Rightarrow> Inr (path, insert path fs)))"
  by (cases "RequestNethunter_245 w"; cases "Download_261 w";
      simp add: fetch_nethunter_def run_simps)

lemma fetch_nethunter_downloads:
  "downloads (events (fetch_nethunter w fs p)) =
     (case RequestNethunter_245 w of
        Inl e \<Rightarrow> []
      | Inr req \<Rightarrow>
          if Filename req \<in> fs then [] else [req\<lparr>ProgressHandler := True\<rparr>])"
  by (cases "RequestNethunter_245 w"; cases "Download_261 w";
      simp add: fetch_nethunter_def run_simps downloads_simps)

lemma fetch_nethunter_fails:
  "isl (RequestNethunter_245 w)
     \<or> downloads (events (fetch_nethunter w fs p)) \<noteq> [] \<and> isl (Download_261 w)
   \<Longrightarrow> result (fetch_nethunter w fs p) = Inl (Exited ErrorRemote)"
  by (auto simp: fetch_nethunter_result fetch_nethunter_downloads split: sum.splits if_splits)

lemma fetch_twrp_requests: "requests_of (events (fetch_twrp w fs p)) = [TWRP]"
  by (cases "NewDownloadRequest_36 w (genTWRPDeviceUrl p)"; cases "Download_286 w";
      simp add: fetch_twrp_def RequestTWRP_def run_simps requests_of_simps)

lemma fetch_twrp_result:
  "result (fetch_twrp w fs p) =
     (case NewDownloadRequest_36 w (genTWRPDeviceUrl p) of
        Inl e \<Rightarrow> Inl (Exited ErrorRemote)
      | Inr req \<Rightarrow>
          if Filename req \<in> fs then Inr (Filename req, fs)
          else (case Download_286 w of
                  Inl e \<Rightarrow> Inl (Exited ErrorRemote)
                | Inr path \<Rightarrow> Inr (path, insert path fs)))"
  by (cases "NewDownloadRequest_36 w (genTWRPDeviceUrl p)"; cases "Download_286 w";
      simp add: fetch_twrp_def RequestTWRP_def run_simps)

lemma fetch_twrp_downloads:
  "downloads (events (fetch_twrp w fs p)) =
     (case NewDownloadRequest_36 w (genTWRPDeviceUrl p) of
        Inl e \<Rightarrow> []
      | Inr req \<Rightarrow>
          if Filename req \<in> fs then [] else [req
               \<lparr>Header := Header req @ [(''Referer'', genTWRPDeviceUrl p)],
                ProgressHandler := True\<rparr>])"
  by (cases "NewDownloadRequest_36 w (genTWRPDeviceUrl p)"; cases "Download_286 w";
      simp add: fetch_twrp_def RequestTWRP_def run_simps downloads_simps)

lemma fetch_twrp_fails:
  "isl (NewDownloadRequest_36 w (genTWRPDeviceUrl p))
     \<or> downloads (events (fetch_twrp w fs p)) \<noteq> [] \<and> isl (Download_286 w)
   \<Longrightarrow> result (fetch_twrp w fs p) = Inl (Exited ErrorRemote)"
  by (auto simp: fetch_twrp_result fetch_twrp_downloads split: sum.splits if_splits)

lemma fetch_oxygenrecovery_requests:
  "requests_of (events (fetch_oxygenrecovery w fs t)) = [OxygenRecovery]"
  by (cases "RequestOxygenRecovery_295 w"; cases "Download_311 w";
      simp add: fetch_oxygenrecovery_def run_simps requests_of_simps)

lemma fetch_oxygenrecovery_result:
  "result (fetch_oxygenrecovery w fs t) =
     (case RequestOxygenRecovery_295 w of
        Inl e \<Rightarrow> Inl (Exited ErrorRemote)
      | Inr req \<Rightarrow>
          if t \<in> fs then Inr (Filename req, fs)
          else (case Download_311 w of
                  Inl e \<Rightarrow> Inl (Exited ErrorRemote)
                | Inr path \<Rightarrow> Inr (path, insert path fs)))"
  by (cases "RequestOxygenRecovery_295 w"; cases "Download_311 w";
      simp add: fetch_oxygenrecovery_def run_simps)

lemma fetch_oxygenrecovery_downloads:
  "downloads (events (fetch_oxygenrecovery w fs t)) =
     (case RequestOxygenRecovery_295 w of
        Inl e \<Rightarrow> []
      | Inr req \<Rightarrow>
          if t \<in> fs then [] else [req\<lparr>ProgressHandler := True\<rparr>])"
  by (cases "RequestOxygenRecovery_295 w"; cases "Download_311 w";
      simp add: fetch_oxygenrecovery_def run_simps downloads_simps)

lemma fetch_oxygenrecovery_fails:
  "isl (RequestOxygenRecovery_295 w)
     \<or> downloads (events (fetch_oxygenrecovery w fs t)) \<noteq> [] \<and> isl (Download_311 w)
   \<Longrightarrow> result (fetch_oxygenrecovery w fs t) = Inl (Exited ErrorRemote)"
  by (auto simp: fetch_oxygenrecovery_result fetch_oxygenrecovery_downloads
           split: sum.splits if_splits)

lemma fetch_factory_requests: "requests_of (events (fetch_factory w fs)) = [Factory]"
  by (cases "RequestFactory_321 w"; cases "Download_337 w";
      simp add: fetch_factory_def run_simps requests_of_simps)

lemma fetch_factory_result:
  "result (fetch_factory w fs) =
     (case RequestFactory_321 w of
        Inl e \<Rightarrow> Inl (Exited ErrorRemote)
      | Inr req \<Rightarrow>
          if Filename req \<in> fs then Inr (Filename req, fs)
          else (case Download_337 w of
                  Inl e \<Rightarrow> Inl (Exited ErrorRemote)
                | Inr path \<Rightarrow> Inr (path, insert path fs)))"
  by (cases "RequestFactory_321 w"; cases "Download_337 w";
      simp add: fetch_factory_def run_simps)

lemma fetch_factory_downloads:
  "downloads (events (fetch_factory w fs)) =
     (case RequestFactory_321 w of
        Inl e \<Rightarrow> []
      | Inr req \<Rightarrow>
          if Filename req \<in> fs then [] else [req\<lparr>ProgressHandler := True\<rparr>])"
  by (cases "RequestFactory_321 w"; cases "Download_337 w";
      simp add: fetch_factory_def run_simps downloads_simps)

lemma fetch_factory_fails:
  "isl (RequestFactory_321 w)
     \<or> downloads (events (fetch_factory w fs)) \<noteq> [] \<and> isl (Download_337 w)
   \<Longrightarrow> result (fetch_factory w fs) = Inl (Exited ErrorRemote)"
  by (auto simp: fetch_factory_result fetch_factory_downloads split: sum.splits if_splits)

section \<open>Artifacts that are already present\<close>

text \<open>
  A block whose result and whose downloads are known, performed twice.
\<close>

lemma fetch_twice_present:
  assumes "result (fetch fs) = Inr (path, fs)" and "downloads (events (fetch fs)) = []"
  shows "downloads (events (fetch_twice fetch fs)) = []"
    and "result (fetch_twice fetch fs) = Inr ((path, path), fs)"
  using assms
  by (simp_all add: fetch_twice_def events_and_then result_and_then downloads_simps ret_pair
        events_pair result_pair)

text \<open>
  The first, the second and the fourth block test the file name of their own request:
  when a file of this name is present, the block downloads nothing, yields this name and
  leaves the working directory as it is.
\<close>

lemma fetch_nethunter_present:
  assumes "RequestNethunter_245 w = Inr req" and "Filename req \<in> fs"
  shows "result (fetch_nethunter w fs p) = Inr (Filename req, fs)"
    and "downloads (events (fetch_nethunter w fs p)) = []"
  using assms by (simp_all add: fetch_nethunter_result fetch_nethunter_downloads)

lemma fetch_twrp_present:
  assumes "NewDownloadRequest_36 w (genTWRPDeviceUrl p) = Inr req" and "Filename req \<in> fs"
  shows "result (fetch_twrp w fs p) = Inr (Filename req, fs)"
    and "downloads (events (fetch_twrp w fs p)) = []"
  using assms by (simp_all add: fetch_twrp_result fetch_twrp_downloads)

lemma fetch_factory_present:
  assumes "RequestFactory_321 w = Inr req" and "Filename req \<in> fs"
  shows "result (fetch_factory w fs) = Inr (Filename req, fs)"
    and "downloads (events (fetch_factory w fs)) = []"
  using assms by (simp_all add: fetch_factory_result fetch_factory_downloads)

text \<open>
  The third block, the recovery image of OxygenOS, passes \<^verbatim>\<open>twrp\<close>, the path of the second
  artifact, to \<^verbatim>\<open>os.Stat\<close> (line 302). The second block leaves a file at the path it yields:
  the file it found, or the file it downloaded. So when the third block starts in the
  working directory that the second left, with the path that the second yielded, the path
  that line 302 tests exists, and the block downloads nothing, yields the file name of its
  request and leaves the working directory as it is.
\<close>

lemma fetch_twrp_leaves_file:
  assumes "result (fetch_twrp w fs0 p) = Inr (t, fs)"
  shows "t \<in> fs"
  using assms by (auto simp: fetch_twrp_result split: sum.splits if_splits)

lemma fetch_oxygenrecovery_after_twrp:
  assumes "RequestOxygenRecovery_295 w = Inr req"
    and "result (fetch_twrp w fs0 p) = Inr (t, fs)"
  shows "result (fetch_oxygenrecovery w fs t) = Inr (Filename req, fs)"
    and "downloads (events (fetch_oxygenrecovery w fs t)) = []"
  using assms(1) fetch_twrp_leaves_file [OF assms(2)]
  by (simp_all add: fetch_oxygenrecovery_result fetch_oxygenrecovery_downloads)

text \<open>The downloads of the whole phase are those of its blocks.\<close>

lemma main_fetch_downloads:
  assumes "result (fetch_nethunter w (files w) p) = Inr (z, fs1)"
    and "result (fetch_twrp w fs1 p) = Inr (t, fs2)"
    and "result (fetch_oxygenrecovery w fs2 t) = Inr (r, fs3)"
    and "result (fetch_factory w fs3) = Inr (f, fs4)"
  shows "downloads (events (main_fetch w p)) =
           downloads (events (fetch_nethunter w (files w) p))
           @ downloads (events (fetch_twrp w fs1 p))
           @ downloads (events (fetch_oxygenrecovery w fs2 t))
           @ downloads (events (fetch_factory w fs3))"
    and "result (main_fetch w p) =
           Inr \<lparr>zip = z, twrp = t, oxygenrecovery = r, factory = f\<rparr>"
  using assms
  by (simp_all add: main_fetch_def events_and_then result_and_then downloads_simps ret_pair
        events_pair result_pair)

text \<open>
  Claim C4. For each of the four artifacts: when the working directory in which the fetch
  of the artifact starts holds a file under the file name of the artifact's request, the
  fetch downloads nothing, yields this file name as the path and leaves the working
  directory as it is; performed twice in a row, it downloads nothing and yields this same
  path both times. The fetch of the third artifact starts, as it does in every run, where
  the fetch of the second ended. When the working directory holds all four files at the
  start, the whole fetch phase downloads nothing and yields the four file names, which
  are the paths that the flash phases use.
\<close>

theorem fetch_skips_present_files:
  "(\<forall>req. RequestNethunter_245 w = Inr req \<and> Filename req \<in> fs \<longrightarrow>
        downloads (events (fetch_nethunter w fs p)) = []
      \<and> result (fetch_nethunter w fs p) = Inr (Filename req, fs)
      \<and> downloads (events (fetch_twice (\<lambda>fs. fetch_nethunter w fs p) fs)) = []
      \<and> result (fetch_twice (\<lambda>fs. fetch_nethunter w fs p) fs) =
          Inr ((Filename req, Filename req), fs))
   \<and> (\<forall>req. NewDownloadRequest_36 w (genTWRPDeviceUrl p) = Inr req \<and> Filename req \<in> fs \<longrightarrow>
        downloads (events (fetch_twrp w fs p)) = []
      \<and> result (fetch_twrp w fs p) = Inr (Filename req, fs)
      \<and> downloads (events (fetch_twice (\<lambda>fs. fetch_twrp w fs p) fs)) = []
      \<and> result (fetch_twice (\<lambda>fs. fetch_twrp w fs p) fs) =
          Inr ((Filename req, Filename req), fs))
   \<and> (\<forall>req fs0 t.
        RequestOxygenRecovery_295 w = Inr req \<and> Filename req \<in> fs
        \<and> result (fetch_twrp w fs0 p) = Inr (t, fs) \<longrightarrow>
        downloads (events (fetch_oxygenrecovery w fs t)) = []
      \<and> result (fetch_oxygenrecovery w fs t) = Inr (Filename req, fs)
      \<and> downloads (events (fetch_twice (\<lambda>fs. fetch_oxygenrecovery w fs t) fs)) = []
      \<and> result (fetch_twice (\<lambda>fs. fetch_oxygenrecovery w fs t) fs) =
          Inr ((Filename req, Filename req), fs))
   \<and> (\<forall>req. RequestFactory_321 w = Inr req \<and> Filename req \<in> fs \<longrightarrow>
        downloads (events (fetch_factory w fs)) = []
      \<and> result (fetch_factory w fs) = Inr (Filename req, fs)
      \<and> downloads (events (fetch_twice (fetch_factory w) fs)) = []
      \<and> result (fetch_twice (fetch_factory w) fs) =
          Inr ((Filename req, Filename req), fs))
   \<and> (\<forall>req1 req2 req3 req4.
        RequestNethunter_245 w = Inr req1 \<and> Filename req1 \<in> files w
        \<and> NewDownloadRequest_36 w (genTWRPDeviceUrl p) = Inr req2 \<and> Filename req2 \<in> files w
        \<and> RequestOxygenRecovery_295 w = Inr req3 \<and> Filename req3 \<in> files w
        \<and> RequestFactory_321 w = Inr req4 \<and> Filename req4 \<in> files w \<longrightarrow>
        downloads (events (main_fetch w p)) = []
      \<and> result (main_fetch w p) =
          Inr \<lparr>zip = Filename req1, twrp = Filename req2, oxygenrecovery = Filename req3,
               factory = Filename req4\<rparr>)"
proof (intro conjI allI impI; (elim conjE)?)
  fix req
  assume a: "RequestNethunter_245 w = Inr req" "Filename req \<in> fs"
  note b = fetch_nethunter_present [OF a, of p]
  show "downloads (events (fetch_nethunter w fs p)) = []"
    and "result (fetch_nethunter w fs p) = Inr (Filename req, fs)"
    by (rule b)+
  show "downloads (events (fetch_twice (\<lambda>fs. fetch_nethunter w fs p) fs)) = []"
    and "result (fetch_twice (\<lambda>fs. fetch_nethunter w fs p) fs) =
           Inr ((Filename req, Filename req), fs)"
    by (rule fetch_twice_present
          [where fetch = "\<lambda>fs. fetch_nethunter w fs p" and fs = fs, OF b])+
next
  fix req
  assume a: "NewDownloadRequest_36 w (genTWRPDeviceUrl p) = Inr req" "Filename req \<in> fs"
  note b = fetch_twrp_present [OF a]
  show "downloads (events (fetch_twrp w fs p)) = []"
    and "result (fetch_twrp w fs p) = Inr (Filename req, fs)"
    by (rule b)+
  show "downloads (events (fetch_twice (\<lambda>fs. fetch_twrp w fs p) fs)) = []"
    and "result (fetch_twice (\<lambda>fs. fetch_twrp w fs p) fs) =
           Inr ((Filename req, Filename req), fs)"
    by (rule fetch_twice_present
          [where fetch = "\<lambda>fs. fetch_twrp w fs p" and fs = fs, OF b])+
next
  fix req fs0 t
  assume a: "RequestOxygenRecovery_295 w = Inr req"
    "result (fetch_twrp w fs0 p) = Inr (t, fs)"
  note b = fetch_oxygenrecovery_after_twrp [OF a]
  show "downloads (events (fetch_oxygenrecovery w fs t)) = []"
    and "result (fetch_oxygenrecovery w fs t) = Inr (Filename req, fs)"
    by (rule b)+
  show "downloads (events (fetch_twice (\<lambda>fs. fetch_oxygenrecovery w fs t) fs)) = []"
    and "result (fetch_twice (\<lambda>fs. fetch_oxygenrecovery w fs t) fs) =
           Inr ((Filename req, Filename req), fs)"
    by (rule fetch_twice_present
          [where fetch = "\<lambda>fs. fetch_oxygenrecovery w fs t" and fs = fs, OF b])+
next
  fix req
  assume a: "RequestFactory_321 w = Inr req" "Filename req \<in> fs"
  note b = fetch_factory_present [OF a]
  show "downloads (events (fetch_factory w fs)) = []"
    and "result (fetch_factory w fs) = Inr (Filename req, fs)"
    by (rule b)+
  show "downloads (events (fetch_twice (fetch_factory w) fs)) = []"
    and "result (fetch_twice (fetch_factory w) fs) = Inr ((Filename req, Filename req), fs)"
    by (rule fetch_twice_present [where fetch = "fetch_factory w" and fs = fs, OF b])+
next
  fix req1 req2 req3 req4
  assume a: "RequestNethunter_245 w = Inr req1" "Filename req1 \<in> files w"
    and b: "NewDownloadRequest_36 w (genTWRPDeviceUrl p) = Inr req2" "Filename req2 \<in> files w"
    and c: "RequestOxygenRecovery_295 w = Inr req3"
    and d: "RequestFactory_321 w = Inr req4" "Filename req4 \<in> files w"
  note n = fetch_nethunter_present [OF a, of p]
  note t = fetch_twrp_present [OF b]
  note r = fetch_oxygenrecovery_after_twrp [OF c t(1)]
  note f = fetch_factory_present [OF d]
  note m = main_fetch_downloads [OF n(1) t(1) r(1) f(1)]
  show "downloads (events (main_fetch w p)) = []"
    by (simp add: m(1) n(2) t(2) r(2) f(2))
  show "result (main_fetch w p) =
          Inr \<lparr>zip = Filename req1, twrp = Filename req2, oxygenrecovery = Filename req3,
               factory = Filename req4\<rparr>"
    by (rule m(2))
qed

text \<open>
  The theorem at the working directory of a second run, which holds the four files: no
  block downloads, and the paths are the four file names.
\<close>

theorem fetch_skips_present_files_witness:
  "downloads (events (main_fetch world_second_run ''QC_Reference_Phone'')) = []
   \<and> result (main_fetch world_second_run ''QC_Reference_Phone'') =
       Inr \<lparr>zip = ''nethunter.zip'', twrp = ''twrp.img'', oxygenrecovery = ''recovery.img'',
            factory = ''factory.zip''\<rparr>
   \<and> result (fetch_twice (\<lambda>fs. fetch_nethunter world_second_run fs ''QC_Reference_Phone'')
               (files world_second_run)) =
       Inr ((''nethunter.zip'', ''nethunter.zip''), files world_second_run)
   \<and> downloads (events (fetch_oxygenrecovery world_second_run (files world_second_run)
                          ''twrp.img'')) = []
   \<and> result (fetch_oxygenrecovery world_second_run (files world_second_run) ''twrp.img'') =
       Inr (''recovery.img'', files world_second_run)"
proof -
  let ?w = world_second_run
  let ?p = "''QC_Reference_Phone''"
  have n: "RequestNethunter_245 ?w = Inr (req0 ''nethunter.zip'')"
    and t: "NewDownloadRequest_36 ?w (genTWRPDeviceUrl ?p) = Inr (req0 ''twrp.img'')"
    and r: "RequestOxygenRecovery_295 ?w = Inr (req0 ''recovery.img'')"
    and f: "RequestFactory_321 ?w = Inr (req0 ''factory.zip'')"
    and i: "Filename (req0 ''nethunter.zip'') \<in> files ?w"
      "Filename (req0 ''twrp.img'') \<in> files ?w"
      "Filename (req0 ''recovery.img'') \<in> files ?w"
      "Filename (req0 ''factory.zip'') \<in> files ?w"
    and s: "result (fetch_twrp ?w (files ?w) ?p) = Inr (''twrp.img'', files ?w)"
    by (simp_all add: world_second_run_def world0_def req0_def fetch_twrp_result)
  note T = fetch_skips_present_files [of ?w "files ?w" ?p]
  have a: "downloads (events (main_fetch ?w ?p)) = []
      \<and> result (main_fetch ?w ?p) =
          Inr \<lparr>zip = Filename (req0 ''nethunter.zip''), twrp = Filename (req0 ''twrp.img''),
               oxygenrecovery = Filename (req0 ''recovery.img''),
               factory = Filename (req0 ''factory.zip'')\<rparr>"
    using T n t r f i by blast
  have b: "result (fetch_twice (\<lambda>fs. fetch_nethunter ?w fs ?p) (files ?w)) =
      Inr ((Filename (req0 ''nethunter.zip''), Filename (req0 ''nethunter.zip'')), files ?w)"
    using T n i by blast
  have c: "downloads (events (fetch_oxygenrecovery ?w (files ?w) ''twrp.img'')) = []
      \<and> result (fetch_oxygenrecovery ?w (files ?w) ''twrp.img'') =
          Inr (Filename (req0 ''recovery.img''), files ?w)"
    using T r i s by blast
  show ?thesis
    using a b c by (simp add: req0_def)
qed

text \<open>
  What line 302 does to a first run, in the environment of the scenario, where the working
  directory is empty at the start: the TWRP image has just been downloaded when the line
  is reached, the recovery image of OxygenOS is not downloaded although no file of its
  name exists, and the run asks fastboot to boot \<^verbatim>\<open>recovery.img\<close>.
\<close>

lemma scenario_run_downloads:
  "map Filename (downloads (events (main world0))) =
     [''nethunter.zip'', ''twrp.img'', ''factory.zip'']
   \<and> filter is_flash (events (main world0)) =
     [FastbootBoot ''recovery.img'', AdbSideload ''factory.zip'', FastbootBoot ''twrp.img'',
      AdbPushFg ''nethunter.zip'' ''/sdcard'', AdbShell ''twrp install /sdcard/nethunter.zip'',
      AdbShell ''twrp wipe cache'', AdbShell ''twrp wipe dalvik'', AdbShell ''twrp wipe data'']"
  by (simp add: world0_def eval_defs downloads_simps cong: Printf_opaque Print_opaque)

section \<open>The order of the fetches and their failure\<close>

lemma fetch_exits:
  "all_exits (\<lambda>out. out = Exited ErrorRemote) (fetch_nethunter w fs p)"
  "all_exits (\<lambda>out. out = Exited ErrorRemote) (fetch_twrp w fs p)"
  "all_exits (\<lambda>out. out = Exited ErrorRemote) (fetch_oxygenrecovery w fs t)"
  "all_exits (\<lambda>out. out = Exited ErrorRemote) (fetch_factory w fs)"
  unfolding fetch_nethunter_def fetch_twrp_def fetch_oxygenrecovery_def fetch_factory_def
    RequestTWRP_def
  by (intro all_exits_intros; simp)+

lemma main_fetch_exits: "all_exits (\<lambda>out. out = Exited ErrorRemote) (main_fetch w p)"
  unfolding main_fetch_def
  by (intro all_exits_and_then fetch_exits all_exits_leaves
        run_prodI [where Q = "all_exits P" for P])

lemma main_fetch_only_fetches:
  "all_events (\<lambda>e. is_console e \<or> is_fetch e) (main_fetch w p)"
  unfolding main_fetch_def fetch_nethunter_def fetch_twrp_def fetch_oxygenrecovery_def
    fetch_factory_def RequestTWRP_def
  by (intro all_events_intros; simp)

lemma main_fetch_result:
  "result (main_fetch w p) =
     (case result (fetch_nethunter w (files w) p) of
        Inl out \<Rightarrow> Inl out
      | Inr (z, fs1) \<Rightarrow>
          (case result (fetch_twrp w fs1 p) of
             Inl out \<Rightarrow> Inl out
           | Inr (t, fs2) \<Rightarrow>
               (case result (fetch_oxygenrecovery w fs2 t) of
                  Inl out \<Rightarrow> Inl out
                | Inr (r, fs3) \<Rightarrow>
                    (case result (fetch_factory w fs3) of
                       Inl out \<Rightarrow> Inl out
                     | Inr (f, fs4) \<Rightarrow>
                         Inr \<lparr>zip = z, twrp = t, oxygenrecovery = r, factory = f\<rparr>))))"
  by (simp add: main_fetch_def result_and_then ret_pair result_pair
        split: sum.split prod.split)

lemma main_fetch_requests:
  "requests_of (events (main_fetch w p)) =
     (case result (fetch_nethunter w (files w) p) of
        Inl out \<Rightarrow> [Nethunter]
      | Inr (z, fs1) \<Rightarrow>
          (case result (fetch_twrp w fs1 p) of
             Inl out \<Rightarrow> [Nethunter, TWRP]
           | Inr (t, fs2) \<Rightarrow>
               (case result (fetch_oxygenrecovery w fs2 t) of
                  Inl out \<Rightarrow> [Nethunter, TWRP, OxygenRecovery]
                | Inr (r, fs3) \<Rightarrow> [Nethunter, TWRP, OxygenRecovery, Factory])))"
  by (simp add: main_fetch_def events_and_then requests_of_simps fetch_nethunter_requests
        fetch_twrp_requests fetch_oxygenrecovery_requests fetch_factory_requests ret_pair
        events_pair split: sum.split prod.split)

text \<open>
  Claim C5, as the specification states it, fails in the environment of its own scenario:
  the artifacts are requested in the order Nethunter zip, TWRP image, OxygenOS recovery
  image, factory image. The OxygenOS recovery image, requested third, is the recovery that
  is booted to sideload the factory image (recovery A of the specification); the TWRP
  image, requested second, is booted afterwards to install the update (recovery B).
\<close>

theorem fetch_order_counterexample:
  "requests_of (events (main world0)) = [Nethunter, TWRP, OxygenRecovery, Factory]
   \<and> result (fetch_oxygenrecovery world0 {''nethunter.zip'', ''twrp.img''} ''twrp.img'') =
       Inr (''recovery.img'', {''nethunter.zip'', ''twrp.img''})
   \<and> filter is_flash (events (main world0)) =
     [FastbootBoot ''recovery.img'', AdbSideload ''factory.zip'', FastbootBoot ''twrp.img'',
      AdbPushFg ''nethunter.zip'' ''/sdcard'', AdbShell ''twrp install /sdcard/nethunter.zip'',
      AdbShell ''twrp wipe cache'', AdbShell ''twrp wipe dalvik'', AdbShell ''twrp wipe data'']"
  by (simp add: world0_def eval_defs requests_of_simps cong: Printf_opaque Print_opaque)

text \<open>
  Claim C5, amended. The fetch phase requests the artifacts in the fixed order Nethunter
  zip, TWRP image, OxygenOS recovery image, factory image, one request each. The phase
  goes from one artifact to the next only when the fetch of the first returned, so the
  requests made are those up to and including the artifact whose fetch ended the run, and
  all four when the phase returns. A fetch fails when its request fails and when a download
  that it performs fails; every exit of the phase is \<open>ErrorRemote\<close>. Console traffic apart,
  the phase performs nothing but requests, \<^verbatim>\<open>os.Stat\<close>, writes of the progress title and
  downloads: it removes no file.
\<close>

theorem fetch_order_and_failure:
  "requests_of (events (main_fetch w p)) =
     (case result (fetch_nethunter w (files w) p) of
        Inl out \<Rightarrow> [Nethunter]
      | Inr (z, fs1) \<Rightarrow>
          (case result (fetch_twrp w fs1 p) of
             Inl out \<Rightarrow> [Nethunter, TWRP]
           | Inr (t, fs2) \<Rightarrow>
               (case result (fetch_oxygenrecovery w fs2 t) of
                  Inl out \<Rightarrow> [Nethunter, TWRP, OxygenRecovery]
                | Inr (r, fs3) \<Rightarrow> [Nethunter, TWRP, OxygenRecovery, Factory])))
   \<and> prefix (requests_of (events (main_fetch w p))) fetch_order
   \<and> (case result (main_fetch w p) of
        Inl out \<Rightarrow> out = Exited ErrorRemote
      | Inr ps \<Rightarrow> requests_of (events (main_fetch w p)) = fetch_order)
   \<and> result (main_fetch w p) =
     (case result (fetch_nethunter w (files w) p) of
        Inl out \<Rightarrow> Inl out
      | Inr (z, fs1) \<Rightarrow>
          (case result (fetch_twrp w fs1 p) of
             Inl out \<Rightarrow> Inl out
           | Inr (t, fs2) \<Rightarrow>
               (case result (fetch_oxygenrecovery w fs2 t) of
                  Inl out \<Rightarrow> Inl out
                | Inr (r, fs3) \<Rightarrow>
                    (case result (fetch_factory w fs3) of
                       Inl out \<Rightarrow> Inl out
                     | Inr (f, fs4) \<Rightarrow>
                         Inr \<lparr>zip = z, twrp = t, oxygenrecovery = r, factory = f\<rparr>))))
   \<and> (\<forall>fs. isl (RequestNethunter_245 w)
         \<or> downloads (events (fetch_nethunter w fs p)) \<noteq> [] \<and> isl (Download_261 w)
       \<longrightarrow> result (fetch_nethunter w fs p) = Inl (Exited ErrorRemote))
   \<and> (\<forall>fs. isl (NewDownloadRequest_36 w (genTWRPDeviceUrl p))
         \<or> downloads (events (fetch_twrp w fs p)) \<noteq> [] \<and> isl (Download_286 w)
       \<longrightarrow> result (fetch_twrp w fs p) = Inl (Exited ErrorRemote))
   \<and> (\<forall>fs t. isl (RequestOxygenRecovery_295 w)
         \<or> downloads (events (fetch_oxygenrecovery w fs t)) \<noteq> [] \<and> isl (Download_311 w)
       \<longrightarrow> result (fetch_oxygenrecovery w fs t) = Inl (Exited ErrorRemote))
   \<and> (\<forall>fs. isl (RequestFactory_321 w)
         \<or> downloads (events (fetch_factory w fs)) \<noteq> [] \<and> isl (Download_337 w)
       \<longrightarrow> result (fetch_factory w fs) = Inl (Exited ErrorRemote))
   \<and> list_all (\<lambda>e. is_console e \<or> is_fetch e) (events (main_fetch w p))"
proof (intro conjI)
  show "requests_of (events (main_fetch w p)) =
     (case result (fetch_nethunter w (files w) p) of
        Inl out \<Rightarrow> [Nethunter]
      | Inr (z, fs1) \<Rightarrow>
          (case result (fetch_twrp w fs1 p) of
             Inl out \<Rightarrow> [Nethunter, TWRP]
           | Inr (t, fs2) \<Rightarrow>
               (case result (fetch_oxygenrecovery w fs2 t) of
                  Inl out \<Rightarrow> [Nethunter, TWRP, OxygenRecovery]
                | Inr (r, fs3) \<Rightarrow> [Nethunter, TWRP, OxygenRecovery, Factory])))"
    by (rule main_fetch_requests)
  show "prefix (requests_of (events (main_fetch w p))) fetch_order"
    by (simp add: main_fetch_requests fetch_order_def split: sum.split)
  show "case result (main_fetch w p) of
        Inl out \<Rightarrow> out = Exited ErrorRemote
      | Inr ps \<Rightarrow> requests_of (events (main_fetch w p)) = fetch_order"
    using main_fetch_exits [of w p]
    by (auto simp: all_exits_def main_fetch_requests main_fetch_result fetch_order_def
             split: sum.splits)
  show "result (main_fetch w p) =
     (case result (fetch_nethunter w (files w) p) of
        Inl out \<Rightarrow> Inl out
      | Inr (z, fs1) \<Rightarrow>
          (case result (fetch_twrp w fs1 p) of
             Inl out \<Rightarrow> Inl out
           | Inr (t, fs2) \<Rightarrow>
               (case result (fetch_oxygenrecovery w fs2 t) of
                  Inl out \<Rightarrow> Inl out
                | Inr (r, fs3) \<Rightarrow>
                    (case result (fetch_factory w fs3) of
                       Inl out \<Rightarrow> Inl out
                     | Inr (f, fs4) \<Rightarrow>
                         Inr \<lparr>zip = z, twrp = t, oxygenrecovery = r, factory = f\<rparr>))))"
    by (rule main_fetch_result)
  show "\<forall>fs. isl (RequestNethunter_245 w)
         \<or> downloads (events (fetch_nethunter w fs p)) \<noteq> [] \<and> isl (Download_261 w)
       \<longrightarrow> result (fetch_nethunter w fs p) = Inl (Exited ErrorRemote)"
    using fetch_nethunter_fails by blast
  show "\<forall>fs. isl (NewDownloadRequest_36 w (genTWRPDeviceUrl p))
         \<or> downloads (events (fetch_twrp w fs p)) \<noteq> [] \<and> isl (Download_286 w)
       \<longrightarrow> result (fetch_twrp w fs p) = Inl (Exited ErrorRemote)"
    using fetch_twrp_fails by blast
  show "\<forall>fs t. isl (RequestOxygenRecovery_295 w)
         \<or> downloads (events (fetch_oxygenrecovery w fs t)) \<noteq> [] \<and> isl (Download_311 w)
       \<longrightarrow> result (fetch_oxygenrecovery w fs t) = Inl (Exited ErrorRemote)"
    using fetch_oxygenrecovery_fails by blast
  show "\<forall>fs. isl (RequestFactory_321 w)
         \<or> downloads (events (fetch_factory w fs)) \<noteq> [] \<and> isl (Download_337 w)
       \<longrightarrow> result (fetch_factory w fs) = Inl (Exited ErrorRemote)"
    using fetch_factory_fails by blast
  show "list_all (\<lambda>e. is_console e \<or> is_fetch e) (events (main_fetch w p))"
    using main_fetch_only_fetches [of w p] by (simp add: all_events_def)
qed

text \<open>
  The theorem at the environment in which the download of the second artifact fails: the
  first artifact has been downloaded, the second is requested and its download fails, the
  run ends with \<open>ErrorRemote\<close> (70), and the third and the fourth are never requested.
\<close>

theorem fetch_order_and_failure_witness:
  "requests_of (events (main_fetch world_twrp_download_fails ''QC_Reference_Phone'')) =
     [Nethunter, TWRP]
   \<and> result (main_fetch world_twrp_download_fails ''QC_Reference_Phone'') =
       Inl (Exited 70)
   \<and> result (fetch_nethunter world_twrp_download_fails {} ''QC_Reference_Phone'') =
       Inr (''nethunter.zip'', {''nethunter.zip''})
   \<and> result (fetch_twrp world_twrp_download_fails {''nethunter.zip''} ''QC_Reference_Phone'')
       = Inl (Exited 70)"
proof -
  have f: "files world_twrp_download_fails = {}"
    by (simp add: world_twrp_download_fails_def world0_def)
  have a: "result (fetch_nethunter world_twrp_download_fails {} ''QC_Reference_Phone'') =
       Inr (''nethunter.zip'', {''nethunter.zip''})"
    by (simp add: world_twrp_download_fails_def world0_def fetch_nethunter_def run_simps
          req0_def)
  have "downloads (events (fetch_twrp world_twrp_download_fails {''nethunter.zip''}
                             ''QC_Reference_Phone'')) \<noteq> []
        \<and> isl (Download_286 world_twrp_download_fails)"
    by (simp add: world_twrp_download_fails_def world0_def fetch_twrp_def RequestTWRP_def
          run_simps req0_def downloads_simps)
  then have b: "result (fetch_twrp world_twrp_download_fails {''nethunter.zip''}
                          ''QC_Reference_Phone'') = Inl (Exited ErrorRemote)"
    using fetch_order_and_failure [of world_twrp_download_fails "''QC_Reference_Phone''"]
    by blast
  show ?thesis
    using fetch_order_and_failure [of world_twrp_download_fails "''QC_Reference_Phone''"]
    by (simp add: f a b ErrorRemote_def)
qed
section \<open>The exit codes\<close>

lemma documented_codes_eq: "documented_codes = {0, 33, 34, 65, 66, 67, 68, 69, 70, 71}"
  by (simp add: documented_codes_def exit_code_defs)

text \<open>
  Every exit of every piece carries a documented code. A piece ends the process in
  another way only through the exit of \<^verbatim>\<open>flag.Parse\<close>, with the status of the flag
  package, and through the panic of line 140, with the error of \<^verbatim>\<open>os.Executable\<close>.
\<close>

lemma flash_exits:
  "all_exits (\<lambda>out. case out of Exited code \<Rightarrow> code \<in> documented_codes
                      | FlagExited status \<Rightarrow> Parse_132 w = Inl status
                      | Panicked v \<Rightarrow> Executable_138 w = Inl v)
     (main_from_flash w ps)"
  unfolding main_from_flash_def main_flash_factory_def main_flash_update_def
    main_from_wipe_def main_wipe_def main_final_def
  by (intro all_exits_intros; simp add: documented_codes_def)

lemma fetch_exits_documented:
  "all_exits (\<lambda>out. case out of Exited code \<Rightarrow> code \<in> documented_codes
                      | FlagExited status \<Rightarrow> Parse_132 w = Inl status
                      | Panicked v \<Rightarrow> Executable_138 w = Inl v)
     (main_fetch w p)"
  unfolding main_fetch_def fetch_nethunter_def fetch_twrp_def fetch_oxygenrecovery_def
    fetch_factory_def RequestTWRP_def
  by (intro all_exits_intros; simp add: documented_codes_def)

lemma from_unlock_exits:
  "all_exits (\<lambda>out. case out of Exited code \<Rightarrow> code \<in> documented_codes
                      | FlagExited status \<Rightarrow> Parse_132 w = Inl status
                      | Panicked v \<Rightarrow> Executable_138 w = Inl v)
     (main_from_unlock w p)"
  unfolding main_from_unlock_def main_from_fetch_def
  by (intro all_exits_seq all_exits_and_then flash_exits fetch_exits_documented)
     (unfold main_unlock_def, (intro all_exits_intros; simp add: documented_codes_def))

lemma main_exits:
  "all_exits (\<lambda>out. case out of Exited code \<Rightarrow> code \<in> documented_codes
                      | FlagExited status \<Rightarrow> Parse_132 w = Inl status
                      | Panicked v \<Rightarrow> Executable_138 w = Inl v)
     (main w)"
  unfolding main_def main_from_detect_def main_from_identify_def
  by (intro all_exits_seq all_exits_and_then from_unlock_exits)
     (unfold main_flags_def main_setup_def main_consent_def main_tools_def main_detect_def
        main_reboot_def verifyAdbStatusOrAbort_def verifyFastbootStatusOrAbort_def
        main_identify_def,
      (intro all_exits_intros; simp add: documented_codes_def)+)

text \<open>\<^verbatim>\<open>main\<close> never returns: its last statement is \<^verbatim>\<open>exit(Success)\<close>.\<close>

lemma ends_seq: "\<exists>out. result n = Inl out \<Longrightarrow> \<exists>out. result (seq m n) = Inl out"
  by (auto simp: result_seq split: sum.split)

lemma ends_and_then:
  "(\<And>x. \<exists>out. result (f x) = Inl out) \<Longrightarrow> \<exists>out. result (and_then m f) = Inl out"
  by (auto simp: result_and_then split: sum.split)

lemma main_final_ends: "\<exists>out. result (main_final w) = Inl out"
  unfolding main_final_def by (intro ends_seq) (simp add: result_exit)

lemma main_ends: "\<exists>out. result (main w) = Inl out"
  unfolding main_def main_from_detect_def main_from_identify_def main_from_unlock_def
    main_from_fetch_def
proof (intro ends_seq ends_and_then)
  fix p ps
  show "\<exists>out. result (main_from_flash w ps) = Inl out"
    unfolding main_from_flash_def main_from_wipe_def
    by (intro ends_seq main_final_ends)
qed

text \<open>
  The two ways of ending that are not an exit: each is taken whenever its call fails, and
  then nothing follows.
\<close>

lemma main_flag_exit:
  assumes "Parse_132 w = Inl status"
  shows "main w = ([FlagParse], Inl (FlagExited status))"
  using assms by (simp add: main_def main_flags_def run_simps)

lemma main_panic:
  assumes "Parse_132 w = Inr False" and "Executable_138 w = Inl err"
  shows "main w = ([FlagParse, Executable], Inl (Panicked err))"
  using assms by (simp add: main_def main_flags_def main_setup_def run_simps)

text \<open>
  Claim C6, as the specification states it, fails, in two environments. When
  \<^verbatim>\<open>os.Executable\<close> returns an error, line 140 panics: the process does not end through
  \<^verbatim>\<open>exit\<close>, and its status is 2. When the command line has a flag that is not defined,
  \<^verbatim>\<open>flag.Parse\<close> ends the process itself, with status 2. The status 2 is in neither band.
\<close>

theorem panic_status_counterexample:
  "result (main world_no_executable) = Inl (Panicked ''permission denied'')
   \<and> process_status (Panicked ''permission denied'') = 2
   \<and> result (main world_bad_flag) = Inl (FlagExited 2)
   \<and> process_status (FlagExited 2) = 2
   \<and> (2::int) \<notin> documented_codes"
  by (simp add: world_no_executable_def world_bad_flag_def world0_def eval_defs
        documented_codes_eq)

text \<open>
  Claim C6, amended. Every run of \<^verbatim>\<open>main\<close> ends the process, and in exactly one of three
  ways: through \<^verbatim>\<open>exit\<close> with a documented code (0, 33, 34, or 65 to 71); through the
  \<^verbatim>\<open>os.Exit\<close> of the flag package inside \<^verbatim>\<open>flag.Parse\<close>, with the status that the flag
  package chose; or through the panic of line 140, with the error of \<^verbatim>\<open>os.Executable\<close>.
  The second way is taken when, and only when, \<^verbatim>\<open>flag.Parse\<close> does not return, and then
  nothing else is performed. The third is taken only when \<^verbatim>\<open>os.Executable\<close> fails, and
  always when it fails after a command line without \<^verbatim>\<open>-version\<close>.
\<close>

theorem exit_codes_documented:
  "(case result (main w) of
      Inl (Exited code) \<Rightarrow> code \<in> documented_codes
    | Inl (FlagExited status) \<Rightarrow> Parse_132 w = Inl status
    | Inl (Panicked v) \<Rightarrow> Executable_138 w = Inl v
    | Inr u \<Rightarrow> False)
   \<and> (\<forall>status. Parse_132 w = Inl status \<longrightarrow>
          main w = ([FlagParse], Inl (FlagExited status)))
   \<and> (\<forall>err. Parse_132 w = Inr False \<and> Executable_138 w = Inl err \<longrightarrow>
          main w = ([FlagParse, Executable], Inl (Panicked err)))
   \<and> documented_codes = {0, 33, 34, 65, 66, 67, 68, 69, 70, 71}"
  using main_exits [of w] main_ends [of w] main_flag_exit [of w] main_panic [of w]
  by (auto simp: all_exits_def documented_codes_eq split: sum.splits outcome.splits)

text \<open>
  The theorem at four environments: the installation succeeds; the unlock is refused;
  \<^verbatim>\<open>os.Executable\<close> fails; the command line has a flag that is not defined.
\<close>

theorem exit_codes_documented_witness:
  "result (main world0) = Inl (Exited 0) \<and> (0::int) \<in> documented_codes
   \<and> result (main world_unlock_refused) = Inl (Exited 69) \<and> (69::int) \<in> documented_codes
   \<and> main world_no_executable =
       ([FlagParse, Executable], Inl (Panicked ''permission denied''))
   \<and> main world_bad_flag = ([FlagParse], Inl (FlagExited 2))"
proof -
  have a: "result (main world0) = Inl (Exited 0)"
    and b: "result (main world_unlock_refused) = Inl (Exited 69)"
    by (simp_all add: world0_def world_unlock_refused_def eval_defs
          cong: Printf_opaque Print_opaque)
  have c: "Parse_132 world_no_executable = Inr False"
    "Executable_138 world_no_executable = Inl ''permission denied''"
    and d: "Parse_132 world_bad_flag = Inl 2"
    by (simp_all add: world_no_executable_def world_bad_flag_def world0_def)
  have e: "(0::int) \<in> documented_codes"
    using exit_codes_documented [of world0] unfolding a by simp
  have f: "(69::int) \<in> documented_codes"
    using exit_codes_documented [of world_unlock_refused] unfolding b by simp
  have g: "main world_no_executable =
       ([FlagParse, Executable], Inl (Panicked ''permission denied''))"
    using exit_codes_documented [of world_no_executable] c by blast
  have h: "main world_bad_flag = ([FlagParse], Inl (FlagExited 2))"
    using exit_codes_documented [of world_bad_flag] d by blast
  show ?thesis
    by (intro conjI a b e f g h)
qed

section \<open>A failing query of the lock state\<close>

text \<open>Nothing but the first lines of the unlock phase reads the answer of the query.\<close>

lemma main_from_flash_Unlocked_227:
  "main_from_flash (w\<lparr>Unlocked_227 := u\<rparr>) = main_from_flash w"
  by (rule ext)
     (simp add: from_defs piece_defs exit_def
        cong: if_cong option.case_cong sum.case_cong prod.case_cong)

lemma main_fetch_Unlocked_227:
  "main_fetch (w\<lparr>Unlocked_227 := u\<rparr>) p = main_fetch w p"
  by (simp add: piece_defs exit_def
        cong: if_cong option.case_cong sum.case_cong prod.case_cong)

lemma main_from_fetch_Unlocked_227:
  "main_from_fetch (w\<lparr>Unlocked_227 := u\<rparr>) p = main_from_fetch w p"
  by (simp only: main_from_fetch_def main_from_flash_Unlocked_227 main_fetch_Unlocked_227)

lemma exit_Unlocked_227: "exit (w\<lparr>Unlocked_227 := u\<rparr>) code = exit w code"
  by (simp add: exit_def)

text \<open>
  Claim C7, as the specification states it, fails: the query of the lock state fails and
  the boolean that comes with the error is false. The warning is printed, and the run then
  takes the device for locked. When the unlock is refused, the run ends with the error
  code \<open>ErrorFastboot\<close> (69); when the unlock succeeds, it ends with
  \<open>SuccessBootloaderUnlocked\<close> (34). Neither run performs anything of the fetch and flash
  phases.
\<close>

theorem lock_query_false_counterexample:
  "Unlocked_227 world_query_fails_refused = (False, Some ''timeout'')
   \<and> Printf ''Warning: unable to determine bootloader lock state: timeout\<newline>'' []
       \<in> set (events (main world_query_fails_refused))
   \<and> unlock_calls (events (main world_query_fails_refused)) = [FastbootUnlock]
   \<and> result (main world_query_fails_refused) = Inl (Exited 69)
   \<and> ErrorFastboot = 69
   \<and> filter is_fetch_or_flash (events (main world_query_fails_refused)) = []
   \<and> Unlocked_227 world_query_fails_false = (False, Some ''timeout'')
   \<and> unlock_calls (events (main world_query_fails_false)) = [FastbootUnlock, FastbootReboot]
   \<and> result (main world_query_fails_false) = Inl (Exited 34)
   \<and> filter is_fetch_or_flash (events (main world_query_fails_false)) = []"
  by (simp add: world_query_fails_refused_def world_query_fails_false_def world0_def
        eval_defs unlock_calls_def is_fetch_or_flash_def)

text \<open>
  Claim C7, amended. When \<^verbatim>\<open>fastboot.Unlocked\<close> returns an error, the installer prints the
  warning right after the query, and the error has no other effect: the run goes by the
  boolean that came with the error, and from the query on it has the same result and, the
  warning apart, the same events as the run in which the query returned this boolean
  without an error. With the boolean true the unlock phase is over after the warning,
  without an exit and without a call of \<^verbatim>\<open>fastboot.Unlock\<close> or \<^verbatim>\<open>fastboot.Reboot\<close>, and the
  run continues with the whole of the fetch phase and what follows it: its events after
  the warning and its result are those of the program from the fetch phase on, and the
  first request of the fetch phase is made. With the boolean false the device is taken for
  locked: \<^verbatim>\<open>fastboot.Unlock\<close> is called once; the run ends with \<open>SuccessBootloaderUnlocked\<close>
  after one \<^verbatim>\<open>fastboot.Reboot\<close>, or with \<open>ErrorFastboot\<close> when the unlock fails; it performs
  nothing of the fetch and flash phases.
\<close>

theorem lock_query_failure_is_advisory:
  assumes "snd (Unlocked_227 w) = Some e"
  shows
    "take 2 (events (main_from_unlock w p)) =
       [FastbootUnlocked,
        Printf (''Warning: unable to determine bootloader lock state: '' @ e @ ''\<newline>'') []]
     \<and> events (main_from_unlock w p) =
       FastbootUnlocked
       # Printf (''Warning: unable to determine bootloader lock state: '' @ e @ ''\<newline>'') []
       # tl (events (main_from_unlock (w\<lparr>Unlocked_227 := (fst (Unlocked_227 w), None)\<rparr>) p))
     \<and> hd (events (main_from_unlock (w\<lparr>Unlocked_227 := (fst (Unlocked_227 w), None)\<rparr>) p))
         = FastbootUnlocked
     \<and> result (main_from_unlock w p) =
         result (main_from_unlock (w\<lparr>Unlocked_227 := (fst (Unlocked_227 w), None)\<rparr>) p)
     \<and> (if fst (Unlocked_227 w)
        then main_unlock w =
               ([FastbootUnlocked,
                 Printf (''Warning: unable to determine bootloader lock state: '' @ e
                         @ ''\<newline>'') []],
                Inr ())
             \<and> events (main_from_unlock w p) =
                 [FastbootUnlocked,
                  Printf (''Warning: unable to determine bootloader lock state: '' @ e
                          @ ''\<newline>'') []]
                 @ events (main_from_fetch w p)
             \<and> result (main_from_unlock w p) = result (main_from_fetch w p)
             \<and> RequestNethunter \<in> set (events (main_from_unlock w p))
             \<and> unlock_calls (events (main_from_unlock w p)) = []
        else unlock_calls (events (main_from_unlock w p)) =
               (if Unlock_233 w = None then [FastbootUnlock, FastbootReboot]
                else [FastbootUnlock])
             \<and> result (main_from_unlock w p) =
                 Inl (Exited (if Unlock_233 w = None then SuccessBootloaderUnlocked
                              else ErrorFastboot))
             \<and> filter is_fetch_or_flash (events (main_from_unlock w p)) = [])"
proof (cases "fst (Unlocked_227 w)")
  case True
  let ?w' = "w\<lparr>Unlocked_227 := (fst (Unlocked_227 w), None)\<rparr>"
  have a: "main_unlock w =
      ([FastbootUnlocked,
        Printf (''Warning: unable to determine bootloader lock state: '' @ e
                @ ''\<newline>'') []], Inr ())"
    using main_unlock_unlocked_eq [OF True] assms by simp
  have w': "?w' = w\<lparr>Unlocked_227 := (True, None)\<rparr>" using True by simp
  have b: "main_unlock (w\<lparr>Unlocked_227 := (True, None)\<rparr>) = ([FastbootUnlocked], Inr ())"
    using main_unlock_unlocked_eq [of "w\<lparr>Unlocked_227 := (True, None)\<rparr>"] by simp
  have c: "RequestNethunter \<in> set (events (main_from_fetch w p))"
    by (rule request_from_fetch)
  have d: "unlock_calls (events (main_from_fetch w p)) = []"
    by (rule no_unlock_from_fetch)
  have e: "events (main_from_unlock w p) =
      [FastbootUnlocked,
       Printf (''Warning: unable to determine bootloader lock state: '' @ e @ ''\<newline>'') []]
      @ events (main_from_fetch w p)"
    and r: "result (main_from_unlock w p) = result (main_from_fetch w p)"
    by (simp_all add: main_from_unlock_def a seq_pair events_prepend result_prepend)
  have e': "events (main_from_unlock (w\<lparr>Unlocked_227 := (True, None)\<rparr>) p) =
      FastbootUnlocked # events (main_from_fetch w p)"
    and r': "result (main_from_unlock (w\<lparr>Unlocked_227 := (True, None)\<rparr>) p) =
      result (main_from_fetch w p)"
    by (simp_all add: main_from_unlock_def b main_from_fetch_Unlocked_227 seq_pair
          events_prepend result_prepend)
  have u: "unlock_calls (events (main_from_unlock w p)) = []"
    using d by (simp add: e unlock_calls_def)
  show ?thesis
    unfolding w' e' r' using True c u by (simp add: a e r)
next
  case False
  let ?w' = "w\<lparr>Unlocked_227 := (fst (Unlocked_227 w), None)\<rparr>"
  let ?v = "w\<lparr>Unlocked_227 := (False, None)\<rparr>"
  have w': "?w' = ?v" using False by simp
  note a = main_unlock_locked_eq [OF False]
  have "\<not> fst (Unlocked_227 ?v)" by simp
  note b = main_unlock_locked_eq [OF this]
  note l = main_unlock_locked [OF False]
  have ra: "\<exists>out. result (main_unlock w) = Inl out"
    by (simp add: a result_prepend result_exit split: option.split)
  have rb: "\<exists>out. result (main_unlock ?v) = Inl out"
    by (simp add: b result_prepend result_exit exit_Unlocked_227 split: option.split)
  have ea: "events (main_from_unlock w p) = events (main_unlock w)"
    and eb: "events (main_from_unlock ?v p) = events (main_unlock ?v)"
    and sa: "result (main_from_unlock w p) = result (main_unlock w)"
    and sb: "result (main_from_unlock ?v p) = result (main_unlock ?v)"
    using ra rb by (auto simp: main_from_unlock_def events_seq result_seq)
  have x: "events (main_unlock w) =
       FastbootUnlocked
       # Printf (''Warning: unable to determine bootloader lock state: '' @ e @ ''\<newline>'') []
       # tl (events (main_unlock ?v))
     \<and> hd (events (main_unlock ?v)) = FastbootUnlocked
     \<and> result (main_unlock w) = result (main_unlock ?v)"
    using False assms
    by (simp add: a b events_prepend result_prepend exit_Unlocked_227
          cong: option.case_cong)
  then have y: "take 2 (events (main_unlock w)) =
       [FastbootUnlocked,
        Printf (''Warning: unable to determine bootloader lock state: '' @ e @ ''\<newline>'') []]"
    by (simp add: numeral_2_eq_2)
  show ?thesis
    unfolding w' ea eb sa sb if_not_P [OF False]
    using x y l by blast
qed

text \<open>
  The theorem at two environments: the query fails and returns true, and the run
  installs; the query fails and returns false, and the run unlocks the bootloader.
\<close>

theorem lock_query_failure_is_advisory_witness:
  "events (main_from_unlock world_query_fails ''QC_Reference_Phone'') =
     [FastbootUnlocked,
      Printf ''Warning: unable to determine bootloader lock state: timeout\<newline>'' []]
     @ events (main_from_fetch world_query_fails ''QC_Reference_Phone'')
   \<and> result (main_from_unlock world_query_fails ''QC_Reference_Phone'') =
       result (main_from_unlock world0 ''QC_Reference_Phone'')
   \<and> RequestNethunter \<in> set (events (main_from_unlock world_query_fails ''QC_Reference_Phone''))
   \<and> result (main_from_unlock world_query_fails_false ''QC_Reference_Phone'') =
       Inl (Exited 34)
   \<and> unlock_calls (events (main_from_unlock world_query_fails_false ''QC_Reference_Phone''))
       = [FastbootUnlock, FastbootReboot]
   \<and> filter is_fetch_or_flash
       (events (main_from_unlock world_query_fails_false ''QC_Reference_Phone'')) = []"
proof -
  have a: "snd (Unlocked_227 world_query_fails) = Some ''timeout''"
    and b: "snd (Unlocked_227 world_query_fails_false) = Some ''timeout''"
    and c: "fst (Unlocked_227 world_query_fails)"
      "\<not> fst (Unlocked_227 world_query_fails_false)"
    and d: "world_query_fails\<lparr>Unlocked_227 := (fst (Unlocked_227 world_query_fails), None)\<rparr>
            = world0"
    and u: "Unlock_233 world_query_fails_false = None"
    by (simp_all add: world_query_fails_def world_query_fails_false_def world0_def)
  note T = lock_query_failure_is_advisory [OF a, of "''QC_Reference_Phone''",
      unfolded d if_P [OF c(1)]]
  note F = lock_query_failure_is_advisory [OF b, of "''QC_Reference_Phone''",
      unfolded if_not_P [OF c(2)] if_P [OF u]]
  have t1: "events (main_from_unlock world_query_fails ''QC_Reference_Phone'') =
     [FastbootUnlocked,
      Printf (''Warning: unable to determine bootloader lock state: '' @ ''timeout''
              @ ''\<newline>'') []]
     @ events (main_from_fetch world_query_fails ''QC_Reference_Phone'')"
    and t2: "result (main_from_unlock world_query_fails ''QC_Reference_Phone'') =
       result (main_from_unlock world0 ''QC_Reference_Phone'')"
    and t3: "RequestNethunter
       \<in> set (events (main_from_unlock world_query_fails ''QC_Reference_Phone''))"
    using T by blast+
  have f1: "result (main_from_unlock world_query_fails_false ''QC_Reference_Phone'') =
       Inl (Exited SuccessBootloaderUnlocked)"
    and f2: "unlock_calls
       (events (main_from_unlock world_query_fails_false ''QC_Reference_Phone''))
       = [FastbootUnlock, FastbootReboot]"
    and f3: "filter is_fetch_or_flash
       (events (main_from_unlock world_query_fails_false ''QC_Reference_Phone'')) = []"
    using F by blast+
  show ?thesis
    using t1 t2 t3 f1 f2 f3
    by (simp add: SuccessBootloaderUnlocked_def SuccessBase_def)
qed

section \<open>Rebooting into the bootloader\<close>

text \<open>
  Claim C8, as the specification states it, fails: after the reboot and the sleep, a phone
  that fastboot sees without the USB permissions is not FastbootReady, yet the phase does
  not end the run with \<open>ErrorAdb\<close> (68). The run goes on to the fastboot check of line 211,
  which probes once more and exits with \<open>ErrorUsbPerms\<close> (67).
\<close>

theorem reboot_usb_denied_counterexample:
  "fst (fastboot_Status_203 world_usb_denied_after_reboot) = UsbPermissionDenied
   \<and> result (main_reboot world_usb_denied_after_reboot) = Inr ()
   \<and> result (main world_usb_denied_after_reboot) = Inl (Exited 67)
   \<and> ErrorAdb = 68"
  by (simp add: world_usb_denied_after_reboot_def world0_def eval_defs)

text \<open>
  Claim C8, amended. The phase calls \<^verbatim>\<open>adb.Reboot("bootloader")\<close> once. If the call fails
  the run ends with \<open>ErrorAdb\<close> at once, without a sleep and without a probe. Otherwise the
  phase sleeps 7000 ms once and probes fastboot once; the run ends with \<open>ErrorAdb\<close> exactly
  when that probe fails or reports NoDevice, and goes on to the fastboot check otherwise
  (also for UsbPermissionDenied and Unknown). Console traffic apart, the phase does nothing
  else: no second sleep, no second reboot, no loop.
\<close>

theorem reboot_single_wait:
  "actions (events (main_reboot w)) =
     (if adb_Reboot_195 w \<noteq> None then [AdbReboot ''bootloader'']
      else [AdbReboot ''bootloader'', Sleep 7000, FastbootStatus])
   \<and> result (main_reboot w) =
     (if adb_Reboot_195 w \<noteq> None
         \<or> snd (fastboot_Status_203 w) \<noteq> None
         \<or> fst (fastboot_Status_203 w) = NoDevice
      then Inl (Exited ErrorAdb) else Inr ())"
proof (cases "fastboot_Status_203 w")
  case (Pair status err)
  have "actions (events (main_reboot w)) =
     (if adb_Reboot_195 w \<noteq> None then [AdbReboot ''bootloader'']
      else [AdbReboot ''bootloader'', Sleep 7000, FastbootStatus])"
    using Pair
    by (simp add: main_reboot_def run_simps events_tree actions_tree actions_simps
          cong: tree_cong)
       (simp split: option.split)
  moreover have "result (main_reboot w) =
     (if adb_Reboot_195 w \<noteq> None
         \<or> snd (fastboot_Status_203 w) \<noteq> None
         \<or> fst (fastboot_Status_203 w) = NoDevice
      then Inl (Exited ErrorAdb) else Inr ())"
    using Pair
    by (simp add: main_reboot_def run_simps result_tree cong: tree_cong)
       (simp split: option.split)
  ultimately show ?thesis by (simp only: simp_thms)
qed

text \<open>
  The theorem at three environments: the phone comes back ready; it comes back without
  the USB permissions; it does not come back.
\<close>

theorem reboot_single_wait_witness:
  "actions (events (main_reboot world0)) =
     [AdbReboot ''bootloader'', Sleep 7000, FastbootStatus]
   \<and> result (main_reboot world0) = Inr ()
   \<and> result (main_reboot world_usb_denied_after_reboot) = Inr ()
   \<and> actions (events (main_reboot world_reboot_lost)) =
     [AdbReboot ''bootloader'', Sleep 7000, FastbootStatus]
   \<and> result (main_reboot world_reboot_lost) = Inl (Exited 68)"
  using reboot_single_wait [of world0] reboot_single_wait [of world_usb_denied_after_reboot]
    reboot_single_wait [of world_reboot_lost]
  by (simp add: world0_def world_usb_denied_after_reboot_def world_reboot_lost_def
        ErrorAdb_def)

section \<open>The wipes\<close>

text \<open>
  Claim C9. The wipe phase sends \<^verbatim>\<open>twrp wipe cache\<close>, \<^verbatim>\<open>twrp wipe dalvik\<close> and
  \<^verbatim>\<open>twrp wipe data\<close> in this order and in no other; a wipe that succeeds is followed at once
  by a sleep of 1000 ms; a wipe that fails ends the run with \<open>ErrorTWRP\<close>, and after it the
  run does nothing to the device any more (it prints the failure and exits: nothing is
  rolled back, nothing is retried). Console traffic apart, these are all the events of the
  phase, and the phase is followed by the final reboot only when all three wipes succeeded.
\<close>

theorem wipe_order_and_failure:
  "actions (events (main_wipe w)) =
     (if Shell_401 w \<noteq> None then [AdbShell ''twrp wipe cache'']
      else if Shell_407 w \<noteq> None
        then [AdbShell ''twrp wipe cache'', Sleep 1000, AdbShell ''twrp wipe dalvik'']
      else if Shell_413 w \<noteq> None
        then [AdbShell ''twrp wipe cache'', Sleep 1000, AdbShell ''twrp wipe dalvik'',
              Sleep 1000, AdbShell ''twrp wipe data'']
      else [AdbShell ''twrp wipe cache'', Sleep 1000, AdbShell ''twrp wipe dalvik'',
            Sleep 1000, AdbShell ''twrp wipe data'', Sleep 1000])
   \<and> result (main_wipe w) =
     (if Shell_401 w \<noteq> None \<or> Shell_407 w \<noteq> None \<or> Shell_413 w \<noteq> None
      then Inl (Exited ErrorTWRP) else Inr ())
   \<and> events (main_from_wipe w) =
     (case result (main_wipe w) of
        Inl out \<Rightarrow> events (main_wipe w)
      | Inr u \<Rightarrow> events (main_wipe w) @ events (main_final w))"
proof (intro conjI)
  show "actions (events (main_wipe w)) =
     (if Shell_401 w \<noteq> None then [AdbShell ''twrp wipe cache'']
      else if Shell_407 w \<noteq> None
        then [AdbShell ''twrp wipe cache'', Sleep 1000, AdbShell ''twrp wipe dalvik'']
      else if Shell_413 w \<noteq> None
        then [AdbShell ''twrp wipe cache'', Sleep 1000, AdbShell ''twrp wipe dalvik'',
              Sleep 1000, AdbShell ''twrp wipe data'']
      else [AdbShell ''twrp wipe cache'', Sleep 1000, AdbShell ''twrp wipe dalvik'',
            Sleep 1000, AdbShell ''twrp wipe data'', Sleep 1000])"
    by (simp add: main_wipe_def run_simps events_tree actions_tree actions_simps
          cong: tree_cong)
       (simp split: option.split)
  show "result (main_wipe w) =
     (if Shell_401 w \<noteq> None \<or> Shell_407 w \<noteq> None \<or> Shell_413 w \<noteq> None
      then Inl (Exited ErrorTWRP) else Inr ())"
    by (simp add: main_wipe_def run_simps result_tree cong: tree_cong)
       (simp split: option.split)
  show "events (main_from_wipe w) =
     (case result (main_wipe w) of
        Inl out \<Rightarrow> events (main_wipe w)
      | Inr u \<Rightarrow> events (main_wipe w) @ events (main_final w))"
    by (simp only: main_from_wipe_def events_seq)
qed

text \<open>
  The theorem at two environments: every wipe succeeds; the dalvik wipe fails.
\<close>

theorem wipe_order_and_failure_witness:
  "actions (events (main_wipe world0)) =
     [AdbShell ''twrp wipe cache'', Sleep 1000, AdbShell ''twrp wipe dalvik'',
      Sleep 1000, AdbShell ''twrp wipe data'', Sleep 1000]
   \<and> result (main_wipe world0) = Inr ()
   \<and> actions (events (main_wipe world_dalvik_fails)) =
     [AdbShell ''twrp wipe cache'', Sleep 1000, AdbShell ''twrp wipe dalvik'']
   \<and> result (main_wipe world_dalvik_fails) = Inl (Exited 71)"
  using wipe_order_and_failure [of world0] wipe_order_and_failure [of world_dalvik_fails]
  by (simp add: world0_def world_dalvik_fails_def ErrorTWRP_def)

section \<open>The prompt before the exit on Windows\<close>

lemma flash_prompted:
  assumes "GOOS w = ''windows''"
  shows "prompted (main_from_flash w ps)"
  unfolding main_from_flash_def main_flash_factory_def main_flash_update_def
    main_from_wipe_def main_wipe_def main_final_def
  using assms by (intro prompted_intros; simp)

lemma fetch_prompted:
  assumes "GOOS w = ''windows''"
  shows "prompted (main_fetch w p)"
  unfolding main_fetch_def fetch_nethunter_def fetch_twrp_def fetch_oxygenrecovery_def
    fetch_factory_def RequestTWRP_def
  using assms by (intro prompted_intros; simp)

lemma from_unlock_prompted:
  assumes "GOOS w = ''windows''"
  shows "prompted (main_from_unlock w p)"
  unfolding main_from_unlock_def main_from_fetch_def
  by (intro prompted_seq prompted_and_then flash_prompted [OF assms]
        fetch_prompted [OF assms])
     (unfold main_unlock_def, insert assms, (intro prompted_intros; simp))

lemma main_prompted:
  assumes "GOOS w = ''windows''"
  shows "prompted (main w)"
  unfolding main_def main_from_detect_def main_from_identify_def
  by (intro prompted_seq prompted_and_then from_unlock_prompted [OF assms])
     (unfold main_flags_def main_setup_def main_consent_def main_tools_def main_detect_def
        main_reboot_def verifyAdbStatusOrAbort_def verifyFastbootStatusOrAbort_def
        main_identify_def, insert assms,
      (intro prompted_intros; simp)+)

text \<open>
  Claim C10, as stated, fails: on Windows, when \<^verbatim>\<open>os.Executable\<close> returns an error, line
  140 panics and the process ends without the prompt and without reading a line. So it
  does when \<^verbatim>\<open>flag.Parse\<close> meets a flag that is not defined and ends the process itself.
\<close>

theorem windows_panic_counterexample:
  "GOOS world_windows_no_executable = ''windows''
   \<and> main world_windows_no_executable =
       ([FlagParse, Executable], Inl (Panicked ''access denied''))
   \<and> GOOS world_windows_bad_flag = ''windows''
   \<and> main world_windows_bad_flag = ([FlagParse], Inl (FlagExited 2))"
  by (simp add: world_windows_no_executable_def world_windows_bad_flag_def world0_def
        eval_defs)

text \<open>
  Claim C10, amended. \<^verbatim>\<open>exit\<close> on Windows prints the prompt, reads one line from standard
  input (whatever the read returns) and then ends the process with the given code; on
  every other platform it ends the process at once. On Windows every run of \<^verbatim>\<open>main\<close> that
  ends through \<^verbatim>\<open>exit\<close> has the prompt and the read as its last two events. The exit of
  \<^verbatim>\<open>flag.Parse\<close>, taken only when \<^verbatim>\<open>flag.Parse\<close> does not return, and the panic of line
  140, taken only when \<^verbatim>\<open>os.Executable\<close> fails, do not go through \<^verbatim>\<open>exit\<close>; every run ends
  in one of these three ways.
\<close>

theorem windows_exit_prompt:
  "exit w code =
     ((if GOOS w = ''windows'' then [Print ''\<newline>Press [Enter] to exit...'', ReadLine] else []),
      Inl (Exited code))
   \<and> (GOOS w = ''windows'' \<longrightarrow>
        (case result (main w) of
           Inl (Exited c) \<Rightarrow>
             suffix [Print ''\<newline>Press [Enter] to exit...'', ReadLine] (events (main w))
         | Inl (FlagExited status) \<Rightarrow> Parse_132 w = Inl status
         | Inl (Panicked v) \<Rightarrow> Executable_138 w = Inl v
         | Inr u \<Rightarrow> False))"
proof (intro conjI impI)
  show "exit w code =
     ((if GOOS w = ''windows'' then [Print ''\<newline>Press [Enter] to exit...'', ReadLine] else []),
      Inl (Exited code))"
    by (simp add: exit_pair exit_events_def exit_prompt_def)
  assume "GOOS w = ''windows''"
  from main_prompted [OF this] main_ends [of w] main_exits [of w]
  show "case result (main w) of
           Inl (Exited c) \<Rightarrow>
             suffix [Print ''\<newline>Press [Enter] to exit...'', ReadLine] (events (main w))
         | Inl (FlagExited status) \<Rightarrow> Parse_132 w = Inl status
         | Inl (Panicked v) \<Rightarrow> Executable_138 w = Inl v
         | Inr u \<Rightarrow> False"
    by (auto simp: prompted_def all_exits_def exit_prompt_def
             split: sum.splits outcome.splits)
qed

text \<open>
  The theorem at two environments: on Windows the operator declines, and the run ends
  with the warning of the abort, the prompt and the read; on Linux \<^verbatim>\<open>exit\<close> performs
  nothing before the process ends.
\<close>

theorem windows_exit_prompt_witness:
  "result (main world_windows_abort) = Inl (Exited 33)
   \<and> suffix [Print ''\<newline>Press [Enter] to exit...'', ReadLine]
       (events (main world_windows_abort))
   \<and> (exit world0 0 :: unit run) = ([], Inl (Exited 0))"
proof -
  have a: "GOOS world_windows_abort = ''windows''"
    and b: "result (main world_windows_abort) = Inl (Exited 33)"
    and c: "GOOS world0 \<noteq> ''windows''"
    by (simp_all add: world_windows_abort_def world0_def eval_defs)
  have d: "suffix [Print ''\<newline>Press [Enter] to exit...'', ReadLine]
       (events (main world_windows_abort))"
    using windows_exit_prompt [where 'a = unit, of world_windows_abort 0] a b by simp
  have e: "(exit world0 0 :: unit run) = ([], Inl (Exited 0))"
    using windows_exit_prompt [where 'a = unit, of world0 0] c by simp
  show ?thesis
    by (intro conjI b d e)
qed

end
